theory Spec2Isabelle
  imports Complex_Main
begin

section \<open>Exceptions and diagnostics\<close>

text \<open>
  The Python exceptions the parser and the period selector can meet. An exception is a
  value: every function that can raise returns \<open>exn + 'a\<close>, with \<open>Inl\<close> the raise.
\<close>

datatype exn =
    FileNotFoundError | OSError | UnicodeDecodeError
  | JSONDecodeError | RecursionError
  | CsvError | StopIteration
  | IndexError | KeyError | ValueError | TypeError | AttributeError | OverflowError
  | OutOfBoundsDatetime | OutOfBoundsTimedelta

section \<open>Python strings\<close>

text \<open>
  A Python \<open>str\<close> is modelled as a \<open>string\<close> whose characters are the code points
  below 256. \<open>str.strip()\<close> removes the characters for which \<open>str.isspace()\<close> holds,
  \<open>str.isdigit()\<close> also holds for the superscript digits of Latin-1.
\<close>

definition py_isspace :: "char \<Rightarrow> bool" where
  "py_isspace c = (of_char c \<in> {9, 10, 11, 12, 13, 28, 29, 30, 31, 32, 133, 160 :: nat})"

definition strip_chars :: "(char \<Rightarrow> bool) \<Rightarrow> string \<Rightarrow> string" where
  "strip_chars P s = rev (dropWhile P (rev (dropWhile P s)))"

definition py_strip :: "string \<Rightarrow> string" where
  "py_strip s = strip_chars py_isspace s"

definition is_decimal :: "char \<Rightarrow> bool" where
  "is_decimal c = (48 \<le> (of_char c :: nat) \<and> (of_char c :: nat) \<le> 57)"

definition py_isdigit :: "char \<Rightarrow> bool" where
  "py_isdigit c = (is_decimal c \<or> of_char c \<in> {178, 179, 185 :: nat})"

definition digit_val :: "char \<Rightarrow> int" where
  "digit_val c = int (of_char c) - 48"

text \<open>
  \<open>int(s)\<close> in base 10: surrounding whitespace, an optional sign, decimal digits with
  single underscores between them, and at most 4300 digits (the interpreter's default
  limit). \<open>None\<close> is the \<open>ValueError\<close>.
\<close>

fun parse_digits :: "int \<Rightarrow> string \<Rightarrow> int option" where
  "parse_digits acc [] = Some acc"
| "parse_digits acc [c] = (if is_decimal c then Some (acc * 10 + digit_val c) else None)"
| "parse_digits acc (c # d # ds) =
     (if is_decimal c then parse_digits (acc * 10 + digit_val c) (d # ds)
      else if c = CHR ''_'' \<and> is_decimal d then parse_digits (acc * 10 + digit_val d) ds
      else None)"

definition max_str_digits :: nat where
  "max_str_digits = 4300"

definition py_int :: "string \<Rightarrow> int option" where
  "py_int s =
     (let t = py_strip s;
          neg = (t \<noteq> [] \<and> hd t = CHR ''-'');
          u = (if t \<noteq> [] \<and> (hd t = CHR ''-'' \<or> hd t = CHR ''+'') then tl t else t)
      in if u = [] \<or> \<not> is_decimal (hd u) \<or> max_str_digits < length (filter is_decimal u)
         then None
         else map_option (\<lambda>v. if neg then - v else v) (parse_digits (digit_val (hd u)) (tl u)))"

text \<open>
  \<open>round(n / 10)\<close> for an integer \<open>n\<close>: true division gives the double nearest to
  \<open>n / 10\<close>, and \<open>round\<close> takes it to the nearest integer, a tie going to the even one.
  Below \<open>2 ^ 53\<close> the double is near enough to \<open>n / 10\<close> for the result to be the
  exact one.
\<close>

definition round_half_even_div10 :: "int \<Rightarrow> int" where
  "round_half_even_div10 n =
     (let q = n div 10; r = n mod 10
      in if r < 5 then q else if 5 < r then q + 1 else if even q then q else q + 1)"

section \<open>The csv reader on one line\<close>

text \<open>
  \<open>next(csv.reader([line]))\<close> with the default dialect: delimiter \<open>,\<close>, quote character
  \<open>"\<close>, doubled quotes, no escape character, not strict. The reader is the state
  machine of the standard library; \<open>None\<close> as the character is the end of the line.
\<close>

datatype csv_state =
  START_RECORD | START_FIELD | IN_FIELD | IN_QUOTED_FIELD | QUOTE_IN_QUOTED_FIELD | EAT_CRNL

record reader =
  cstate :: csv_state
  cfields :: "string list"
  cur :: string

definition field_limit :: nat where
  "field_limit = 131072"

definition parse_add_char :: "reader \<Rightarrow> char \<Rightarrow> exn + reader" where
  "parse_add_char r c =
     (if field_limit \<le> length (cur r) then Inl CsvError else Inr (r\<lparr>cur := cur r @ [c]\<rparr>))"

definition parse_save_field :: "reader \<Rightarrow> reader" where
  "parse_save_field r = r\<lparr>cfields := cfields r @ [cur r], cur := []\<rparr>"

definition is_newline :: "char \<Rightarrow> bool" where
  "is_newline c = (c = CHR 0x0A \<or> c = CHR 0x0D)"

definition quotechar :: char where
  "quotechar = CHR 0x22"

definition delimiter :: char where
  "delimiter = CHR '',''"

definition start_field :: "reader \<Rightarrow> char option \<Rightarrow> exn + reader" where
  "start_field r co =
     (case co of
        None \<Rightarrow> Inr ((parse_save_field r)\<lparr>cstate := START_RECORD\<rparr>)
      | Some c \<Rightarrow>
          if is_newline c then Inr ((parse_save_field r)\<lparr>cstate := EAT_CRNL\<rparr>)
          else if c = quotechar then Inr (r\<lparr>cstate := IN_QUOTED_FIELD\<rparr>)
          else if c = delimiter then Inr (parse_save_field r)
          else map_sum id (\<lambda>r'. r'\<lparr>cstate := IN_FIELD\<rparr>) (parse_add_char r c))"

definition parse_process_char :: "reader \<Rightarrow> char option \<Rightarrow> exn + reader" where
  "parse_process_char r co =
     (case cstate r of
        START_RECORD \<Rightarrow>
          (case co of
             None \<Rightarrow> Inr r
           | Some c \<Rightarrow>
               if is_newline c then Inr (r\<lparr>cstate := EAT_CRNL\<rparr>)
               else start_field (r\<lparr>cstate := START_FIELD\<rparr>) co)
      | START_FIELD \<Rightarrow> start_field r co
      | IN_FIELD \<Rightarrow>
          (case co of
             None \<Rightarrow> Inr ((parse_save_field r)\<lparr>cstate := START_RECORD\<rparr>)
           | Some c \<Rightarrow>
               if is_newline c then Inr ((parse_save_field r)\<lparr>cstate := EAT_CRNL\<rparr>)
               else if c = delimiter then Inr ((parse_save_field r)\<lparr>cstate := START_FIELD\<rparr>)
               else parse_add_char r c)
      | IN_QUOTED_FIELD \<Rightarrow>
          (case co of
             None \<Rightarrow> Inr r
           | Some c \<Rightarrow>
               if c = quotechar then Inr (r\<lparr>cstate := QUOTE_IN_QUOTED_FIELD\<rparr>)
               else parse_add_char r c)
      | QUOTE_IN_QUOTED_FIELD \<Rightarrow>
          (case co of
             None \<Rightarrow> Inr ((parse_save_field r)\<lparr>cstate := START_RECORD\<rparr>)
           | Some c \<Rightarrow>
               if c = quotechar
               then map_sum id (\<lambda>r'. r'\<lparr>cstate := IN_QUOTED_FIELD\<rparr>) (parse_add_char r c)
               else if c = delimiter then Inr ((parse_save_field r)\<lparr>cstate := START_FIELD\<rparr>)
               else if is_newline c then Inr ((parse_save_field r)\<lparr>cstate := EAT_CRNL\<rparr>)
               else map_sum id (\<lambda>r'. r'\<lparr>cstate := IN_FIELD\<rparr>) (parse_add_char r c))
      | EAT_CRNL \<Rightarrow>
          (case co of
             None \<Rightarrow> Inr (r\<lparr>cstate := START_RECORD\<rparr>)
           | Some c \<Rightarrow> if is_newline c then Inr r else Inl CsvError))"

fun parse_chars :: "reader \<Rightarrow> string \<Rightarrow> exn + reader" where
  "parse_chars r [] = Inr r"
| "parse_chars r (c # cs) =
     (case parse_process_char r (Some c) of
        Inl e \<Rightarrow> Inl e
      | Inr r' \<Rightarrow> parse_chars r' cs)"

text \<open>
  The reader is given the one line. When the line ends inside a quoted field the reader
  asks for another line, finds none, and (not being strict) closes the field.
\<close>

definition csv_row :: "string \<Rightarrow> exn + string list" where
  "csv_row line =
     (case parse_chars \<lparr>cstate = START_RECORD, cfields = [], cur = []\<rparr> line of
        Inl e \<Rightarrow> Inl e
      | Inr r \<Rightarrow>
          (case parse_process_char r None of
             Inl e \<Rightarrow> Inl e
           | Inr r' \<Rightarrow>
               if cstate r' = START_RECORD then Inr (cfields r')
               else if cur r' \<noteq> [] \<or> cstate r' = IN_QUOTED_FIELD
               then Inr (cfields (parse_save_field r'))
               else Inl StopIteration))"

section \<open>Values, tables and the library\<close>

text \<open>
  A timezone-aware \<open>Timestamp\<close> is its instant, in nanoseconds since the Unix epoch,
  and the name of its zone; \<open>tz_convert\<close> changes the zone and keeps the instant. A
  \<open>Timedelta\<close> is a number of nanoseconds. \<open>None\<close> is the not-a-time value \<open>NaT\<close>.
\<close>

datatype timestamp = Timestamp (nanos: int) (zone: string)

text \<open>
  What \<open>json.loads\<close> returns, with the floats left abstract (type \<open>'f\<close>), and the
  \<open>Timedelta\<close> that the summary puts into the metadata. A \<open>dict\<close> is the list of its
  items, the keys distinct.
\<close>

datatype 'f pyval =
    PNone | PBool bool | PInt int | PFloat 'f | PStr string
  | PList "'f pyval list" | PDict "(string \<times> 'f pyval) list"
  | PTimedelta "int option"

type_synonym 'f pydict = "(string \<times> 'f pyval) list"

type_synonym 'f metadata = "string \<rightharpoonup> 'f pyval"

text \<open>
  The library calls whose result the source does not determine, as parameters:
  \<open>json.loads\<close> on a line that starts with a brace, the clock, \<open>round(n / 10)\<close> beyond
  the exact range of doubles, \<open>pd.to_datetime\<close> of a float and of a string (the instant,
  or \<open>NaT\<close>), the cast of a float to \<open>int64\<close>, and the cast of a cell to \<open>float64\<close>
  followed by \<open>pd.to_datetime(unit="ms")\<close>.
\<close>

record 'f lib =
  json_loads :: "string \<Rightarrow> exn + 'f pydict"
  get_utc_now :: string
  true_div_round :: "int \<Rightarrow> exn + int"
  to_datetime_float :: "'f \<Rightarrow> exn + int option"
  to_datetime_str :: "string \<Rightarrow> exn + int option"
  float_to_int64 :: "'f \<Rightarrow> exn + int"
  ms_to_datetime :: "'f pyval \<Rightarrow> exn + int option"

text \<open>A csv cell is a string; the legacy transform stores a Python int in its place.\<close>

datatype cell = CStr string | CInt int

datatype dtype =
  Int64 | Int16 | Int32 | UInt8 | Float64 | Category | Object | Timedelta64 | Datetime64

datatype 'f val =
    VInt int
  | VObj "'f pyval option"
  | VTimedelta "int option"
  | VTimestamp "timestamp option"

record 'f dataframe =
  columns :: "(string \<times> dtype) list"
  rows :: "'f val list list"

datatype tval = TS timestamp | TD int

datatype 'f diag =
    Reading
  | ErrorReadingLine nat
  | BadAccelRow "string list"
  | BadHrRow "string list"
  | UnknownData "string list"
  | FileNotFound
  | ErrorExn exn
  | DroppedRows nat
  | UnknownObject "'f pydict"
  | NoMetadata
  | NoStartTimestamp exn
  | IgnoringDuration
  | SelectingPeriod tval tval
  | StartOutOfRange
  | EndOutOfRange
  | Samples string nat

fun bind_exn :: "exn + 'a \<Rightarrow> ('a \<Rightarrow> exn + 'b) \<Rightarrow> exn + 'b" where
  "bind_exn (Inl e) f = Inl e"
| "bind_exn (Inr x) f = f x"

fun collect :: "(exn + 'a) list \<Rightarrow> exn + 'a list" where
  "collect [] = Inr []"
| "collect (m # ms) = bind_exn m (\<lambda>x. bind_exn (collect ms) (\<lambda>xs. Inr (x # xs)))"

text \<open>A step that prints and may raise: the diagnostics it printed, and its outcome.\<close>

fun bind_log ::
  "'d list \<times> (exn + 'a) \<Rightarrow> ('a \<Rightarrow> 'd list \<times> (exn + 'b)) \<Rightarrow> 'd list \<times> (exn + 'b)" where
  "bind_log (l, Inl e) f = (l, Inl e)"
| "bind_log (l, Inr x) f = (l @ fst (f x), snd (f x))"

definition in64 :: "int \<Rightarrow> bool" where
  "in64 n = (- (2 ^ 63) < n \<and> n < 2 ^ 63)"

section \<open>The schemas\<close>

definition cols_hr :: "(string \<times> dtype) list" where
  "cols_hr =
     [(''time_elapsed'', Int64), (''heart_rate_bpm'', Int16), (''confidence'', UInt8),
      (''ppg_raw'', Int32), (''ppg_filter'', Int32)]"

definition cols_accel :: "(string \<times> dtype) list" where
  "cols_accel =
     [(''time_elapsed'', Int64), (''x'', Int32), (''y'', Int32), (''z'', Int32),
      (''magnitude'', Int32), (''difference'', Int32)]"

definition cols_survey :: "(string \<times> dtype) list" where
  "cols_survey =
     [(''number'', Int64), (''item'', Int64), (''timeStamp'', Float64),
      (''question'', Category), (''input'', Category), (''range'', Object),
      (''response'', Object), (''time_elapsed'', Int64)]"

section \<open>Rows to table\<close>

definition in_range :: "dtype \<Rightarrow> int \<Rightarrow> bool" where
  "in_range d n =
     (case d of
        Int64 \<Rightarrow> - (2 ^ 63) \<le> n \<and> n < 2 ^ 63
      | Int32 \<Rightarrow> - (2 ^ 31) \<le> n \<and> n < 2 ^ 31
      | Int16 \<Rightarrow> - (2 ^ 15) \<le> n \<and> n < 2 ^ 15
      | UInt8 \<Rightarrow> 0 \<le> n \<and> n < 2 ^ 8
      | _ \<Rightarrow> False)"

text \<open>
  \<open>astype\<close> on one cell of an integer column: a string is read as \<open>int\<close> reads it, and
  a value outside the column's type raises. Both schemas \<open>_dataframe_from_list\<close> is
  called with hold integer columns only.
\<close>

definition astype_cell :: "dtype \<Rightarrow> cell \<Rightarrow> exn + 'f val" where
  "astype_cell d c =
     (case c of
        CStr s \<Rightarrow>
          (case py_int s of
             None \<Rightarrow> Inl ValueError
           | Some n \<Rightarrow> if in_range d n then Inr (VInt n) else Inl OverflowError)
      | CInt n \<Rightarrow> if in_range d n then Inr (VInt n) else Inl OverflowError)"

definition astype_row :: "(string \<times> dtype) list \<Rightarrow> cell list \<Rightarrow> exn + 'f val list" where
  "astype_row cols r = collect (map2 (\<lambda>(name, d) c. astype_cell d c) cols r)"

fun col_index :: "string \<Rightarrow> (string \<times> dtype) list \<Rightarrow> nat option" where
  "col_index name [] = None"
| "col_index name ((k, d) # cs) =
     (if k = name then Some 0 else map_option Suc (col_index name cs))"

text \<open>\<open>pd.to_timedelta(x, unit="ms")\<close> on one cell of an integer column.\<close>

definition to_timedelta_ms :: "'f val \<Rightarrow> exn + 'f val" where
  "to_timedelta_ms v =
     (case v of
        VInt n \<Rightarrow>
          if in64 (n * 1000000) then Inr (VTimedelta (Some (n * 1000000)))
          else Inl OutOfBoundsTimedelta
      | VTimedelta t \<Rightarrow> Inr (VTimedelta t)
      | _ \<Rightarrow> Inl TypeError)"

definition to_timedelta_col :: "string \<Rightarrow> 'f dataframe \<Rightarrow> exn + 'f dataframe" where
  "to_timedelta_col c df =
     (case col_index c (columns df) of
        None \<Rightarrow> Inl KeyError
      | Some j \<Rightarrow>
          bind_exn (collect (map (\<lambda>r. bind_exn (to_timedelta_ms (r ! j)) (\<lambda>v. Inr (r[j := v])))
                      (rows df)))
            (\<lambda>rs. Inr \<lparr>columns = (columns df)[j := (c, Timedelta64)], rows = rs\<rparr>))"

definition has_missing :: "cell list \<Rightarrow> bool" where
  "has_missing r = (CStr [] \<in> set r)"

text \<open>
  \<open>_dataframe_from_list\<close>, with its default \<open>timedelta_cols\<close>. \<open>parse_file\<close> only passes
  rows of the schema's length; rows of another length are answered with the
  \<open>ValueError\<close> of the table constructor.
\<close>

definition dataframe_from_list ::
  "cell list list \<Rightarrow> (string \<times> dtype) list \<Rightarrow> 'f diag list \<times> (exn + 'f dataframe)" where
  "dataframe_from_list rs cols =
     (if \<not> list_all (\<lambda>r. length r = length cols) rs then ([], Inl ValueError)
      else
        let n_df_full = length rs;
            kept = filter (\<lambda>r. \<not> has_missing r) rs;
            n_df_na = length kept;
            n_dropped = n_df_full - n_df_na
        in ((if 0 < n_dropped then [DroppedRows n_dropped] else []),
            bind_exn (collect (map (astype_row cols) kept))
              (\<lambda>vs. to_timedelta_col ''time_elapsed'' \<lparr>columns = cols, rows = vs\<rparr>)))"

section \<open>The reading pass of \<open>parse_file\<close>\<close>

text \<open>
  What the loop over the lines accumulates: the decoded objects keyed by line number, the
  accepted heart-rate and acceleration rows, and what was printed.
\<close>

record 'f acc =
  json_objs :: "(nat \<times> 'f pydict) list"
  rows_hr :: "cell list list"
  rows_accel :: "cell list list"
  printed :: "'f diag list"

definition startswith_A :: "string \<Rightarrow> bool" where
  "startswith_A s = (s \<noteq> [] \<and> hd s = CHR ''A'')"

definition strip_A :: "string \<Rightarrow> string" where
  "strip_A s = strip_chars (\<lambda>c. c = CHR ''A'') s"

definition py_round_div10 :: "'f lib \<Rightarrow> int \<Rightarrow> exn + int" where
  "py_round_div10 L n =
     (if \<bar>n\<bar> < 2 ^ 53 then Inr (round_half_even_div10 n) else true_div_round L n)"

text \<open>
  The body of the loop on line \<open>n\<close>. \<open>Inl\<close> is an exception that leaves the body: it
  ends the loop, in the handlers around the \<open>with\<close> block. The comparison
  \<open>version < 0.2\<close> of two doubles is the comparison with \<open>2 / 10\<close>: no double lies
  between \<open>2 / 10\<close> and the double nearest to it.
\<close>

definition process_line :: "'f lib \<Rightarrow> rat \<Rightarrow> nat \<Rightarrow> string \<Rightarrow> 'f acc \<Rightarrow> exn + 'f acc" where
  "process_line L version n raw_line a =
     (let line = py_strip raw_line in
      if line = [] then Inr a
      else if hd line = CHR ''{'' then
        (case json_loads L line of
           Inr obj \<Rightarrow> Inr (a\<lparr>json_objs := json_objs a @ [(n, obj)]\<rparr>)
         | Inl e \<Rightarrow>
             if e = JSONDecodeError then Inr (a\<lparr>printed := printed a @ [ErrorReadingLine n]\<rparr>)
             else Inl e)
      else
        bind_exn (csv_row line) (\<lambda>row.
          if row = [] then Inr a
          else if startswith_A (row ! 0) \<and> length row = length cols_accel then
            Inr (a\<lparr>rows_accel := rows_accel a @ [map CStr (row[0 := strip_A (row ! 0)])]\<rparr>)
          else if startswith_A (row ! 0) \<and> length row \<noteq> length cols_accel then
            Inr (a\<lparr>printed := printed a @ [BadAccelRow row]\<rparr>)
          else if row ! 0 = [] then Inl IndexError
          else if py_isdigit (row ! 0 ! 0) \<and> length row = length cols_hr then
            (if version < 2 / 10 then
               (case py_int (row ! 1) of
                  None \<Rightarrow> Inl ValueError
                | Some v \<Rightarrow>
                    bind_exn (py_round_div10 L v) (\<lambda>q.
                      Inr (a\<lparr>rows_hr := rows_hr a @ [(map CStr row)[1 := CInt q]]\<rparr>)))
             else Inr (a\<lparr>rows_hr := rows_hr a @ [map CStr row]\<rparr>))
          else if py_isdigit (row ! 0 ! 0) \<and> length row \<noteq> length cols_hr then
            Inr (a\<lparr>printed := printed a @ [BadHrRow row]\<rparr>)
          else Inr (a\<lparr>printed := printed a @ [UnknownData row]\<rparr>)))"

definition handler :: "exn \<Rightarrow> 'f diag" where
  "handler e = (if e = FileNotFoundError then FileNotFound else ErrorExn e)"

fun read_lines :: "'f lib \<Rightarrow> rat \<Rightarrow> nat \<Rightarrow> string list \<Rightarrow> 'f acc \<Rightarrow> 'f acc \<times> exn option" where
  "read_lines L version n [] a = (a, None)"
| "read_lines L version n (raw_line # ls) a =
     (case process_line L version n raw_line a of
        Inl e \<Rightarrow> (a, Some e)
      | Inr a' \<Rightarrow> read_lines L version (Suc n) ls a')"

text \<open>
  A file is the failure of \<open>open\<close>, or the lines the iteration yields and the exception
  that ends the iteration early, if any.
\<close>

type_synonym file_input = "exn + string list \<times> exn option"

definition read_file :: "'f lib \<Rightarrow> rat \<Rightarrow> file_input \<Rightarrow> 'f acc" where
  "read_file L version f =
     (let a0 = \<lparr>json_objs = [], rows_hr = [], rows_accel = [], printed = []\<rparr> in
      case f of
        Inl e \<Rightarrow> a0\<lparr>printed := [handler e]\<rparr>
      | Inr (ls, read_error) \<Rightarrow>
          (case read_lines L version 0 ls (a0\<lparr>printed := [Reading]\<rparr>) of
             (a, Some e) \<Rightarrow> a\<lparr>printed := printed a @ [handler e]\<rparr>
           | (a, None) \<Rightarrow>
               (case read_error of
                  Some e \<Rightarrow> a\<lparr>printed := printed a @ [handler e]\<rparr>
                | None \<Rightarrow> a)))"

section \<open>Metadata and the survey table\<close>

definition put_all :: "string \<Rightarrow> 'f pydict \<Rightarrow> 'f metadata \<Rightarrow> 'f metadata" where
  "put_all prefix d m = fold (\<lambda>(k, v) m'. m'(prefix @ k \<mapsto> v)) d m"

text \<open>\<open>obj[key].items()\<close>, and \<open>v[key]\<close> for a string key.\<close>

definition items_of :: "'f pyval option \<Rightarrow> exn + 'f pydict" where
  "items_of vo =
     (case vo of
        None \<Rightarrow> Inl KeyError
      | Some (PDict d) \<Rightarrow> Inr d
      | Some _ \<Rightarrow> Inl AttributeError)"

definition subscript :: "'f pyval \<Rightarrow> string \<Rightarrow> exn + 'f pyval" where
  "subscript v key =
     (case v of
        PDict d \<Rightarrow> (case map_of d key of None \<Rightarrow> Inl KeyError | Some x \<Rightarrow> Inr x)
      | _ \<Rightarrow> Inl TypeError)"

definition has_key :: "string \<Rightarrow> 'f pydict \<Rightarrow> bool" where
  "has_key k d = (k \<in> fst ` set d)"

record 'f objs_state =
  meta_out :: "'f metadata"
  rows_survey :: "'f pydict list"
  said :: "'f diag list"

definition process_obj :: "'f objs_state \<Rightarrow> 'f pydict \<Rightarrow> exn + 'f objs_state" where
  "process_obj s obj =
     (if has_key ''File'' obj then
        bind_exn (items_of (map_of obj ''File'')) (\<lambda>d.
          Inr (s\<lparr>meta_out := put_all [] d (meta_out s)\<rparr>))
      else if has_key ''Status'' obj then
        bind_exn (items_of (map_of obj ''Status'')) (\<lambda>st.
          let m1 = put_all ''status_'' st (meta_out s) in
          bind_exn (subscript (PDict st) ''state'') (\<lambda>state.
            if state = PStr ''START_RECORD'' then
              bind_exn (items_of (map_of obj ''Record'')) (\<lambda>rc.
                Inr (s\<lparr>meta_out := put_all ''start_'' rc m1\<rparr>))
            else if state = PStr ''STOP_RECORD'' then
              bind_exn (items_of (map_of obj ''Record'')) (\<lambda>rc.
                Inr (s\<lparr>meta_out := put_all ''stop_'' rc m1\<rparr>))
            else Inr (s\<lparr>meta_out := m1\<rparr>)))
      else if has_key ''Record'' obj then
        bind_exn (case map_of obj ''Record'' of None \<Rightarrow> Inl KeyError | Some r \<Rightarrow> Inr r) (\<lambda>r.
          bind_exn (subscript r ''State'') (\<lambda>state.
            if state = PStr ''START_RECORD'' then
              bind_exn (items_of (Some r)) (\<lambda>rc.
                Inr (s\<lparr>meta_out := put_all ''start_'' rc (meta_out s)\<rparr>))
            else if state = PStr ''STOP_RECORD'' then
              bind_exn (items_of (Some r)) (\<lambda>rc.
                Inr (s\<lparr>meta_out := put_all ''stop_'' rc (meta_out s)\<rparr>))
            else Inr s))
      else if has_key ''question'' obj then
        Inr (s\<lparr>rows_survey := rows_survey s @ [obj]\<rparr>)
      else Inr (s\<lparr>said := said s @ [UnknownObject obj]\<rparr>))"

fun process_objs :: "'f objs_state \<Rightarrow> 'f pydict list \<Rightarrow> 'f diag list \<times> (exn + 'f objs_state)" where
  "process_objs s [] = (said s, Inr s)"
| "process_objs s (obj # objs) =
     (case process_obj s obj of
        Inl e \<Rightarrow> (said s, Inl e)
      | Inr s' \<Rightarrow> process_objs s' objs)"

text \<open>
  \<open>pd.to_datetime(v, utc=True).tz_convert(tz)\<close>, the instant of it: no unit is given, so
  a number counts nanoseconds. \<open>to_datetime(None)\<close> is \<open>None\<close>, which has no
  \<open>tz_convert\<close>. The metadata is a flat mapping to scalars; a list or a mapping as the
  value is answered with a \<open>TypeError\<close> here.
\<close>

definition to_datetime :: "'f lib \<Rightarrow> 'f pyval \<Rightarrow> exn + int option" where
  "to_datetime L v =
     (case v of
        PNone \<Rightarrow> Inl AttributeError
      | PBool b \<Rightarrow> Inl TypeError
      | PInt n \<Rightarrow> if in64 n then Inr (Some n) else Inl OutOfBoundsDatetime
      | PFloat x \<Rightarrow> to_datetime_float L x
      | PStr s \<Rightarrow> to_datetime_str L s
      | PList l \<Rightarrow> Inl TypeError
      | PDict d \<Rightarrow> Inl TypeError
      | PTimedelta t \<Rightarrow> Inl TypeError)"

definition get_start_timestamp ::
  "'f lib \<Rightarrow> string \<Rightarrow> 'f metadata \<Rightarrow> timestamp option \<times> 'f diag list" where
  "get_start_timestamp L tz metadata =
     (case metadata ''start_UNIXTimeStamp'' of
        None \<Rightarrow> (None, [NoStartTimestamp KeyError])
      | Some v \<Rightarrow>
          (case to_datetime L v of
             Inl e \<Rightarrow> (None, [NoStartTimestamp e])
           | Inr None \<Rightarrow> (None, [])
           | Inr (Some n) \<Rightarrow> (Some (Timestamp n tz), [])))"

text \<open>
  The survey table, row by row. The cast to \<open>int64\<close> of a cell, the cast to
  \<open>category\<close> (the value must be hashable), and \<open>timeStamp\<close>: cast to \<open>float64\<close>, then
  \<open>pd.to_datetime(unit="ms", utc=True)\<close>, exact on an integer below \<open>2 ^ 53\<close>. A key
  the object lacks gives a missing cell.
\<close>

definition astype_int64 :: "'f lib \<Rightarrow> 'f pyval option \<Rightarrow> exn + int" where
  "astype_int64 L vo =
     (case vo of
        None \<Rightarrow> Inl ValueError
      | Some (PInt n) \<Rightarrow> if in_range Int64 n then Inr n else Inl OverflowError
      | Some (PBool b) \<Rightarrow> Inr (if b then 1 else 0)
      | Some (PFloat x) \<Rightarrow> float_to_int64 L x
      | Some (PStr s) \<Rightarrow>
          (case py_int s of
             None \<Rightarrow> Inl ValueError
           | Some n \<Rightarrow> if in_range Int64 n then Inr n else Inl OverflowError)
      | Some _ \<Rightarrow> Inl TypeError)"

definition astype_category :: "'f pyval option \<Rightarrow> exn + 'f pyval option" where
  "astype_category vo =
     (case vo of
        Some (PList l) \<Rightarrow> Inl TypeError
      | Some (PDict d) \<Rightarrow> Inl TypeError
      | _ \<Rightarrow> Inr vo)"

definition timeStamp_to_datetime ::
  "'f lib \<Rightarrow> string \<Rightarrow> 'f pyval option \<Rightarrow> exn + timestamp option" where
  "timeStamp_to_datetime L tz vo =
     (case vo of
        None \<Rightarrow> Inr None
      | Some PNone \<Rightarrow> Inr None
      | Some v \<Rightarrow>
          bind_exn
            (case v of
               PInt n \<Rightarrow>
                 if \<bar>n\<bar> < 2 ^ 53
                 then (if in64 (n * 1000000) then Inr (Some (n * 1000000))
                       else Inl OutOfBoundsDatetime)
                 else ms_to_datetime L v
             | _ \<Rightarrow> ms_to_datetime L v)
            (\<lambda>t. Inr (map_option (\<lambda>i. Timestamp i tz) t)))"

definition survey_cast :: "'f lib \<Rightarrow> string \<Rightarrow> 'f pydict \<Rightarrow> exn + 'f val list" where
  "survey_cast L tz d =
     bind_exn (astype_int64 L (map_of d ''number'')) (\<lambda>number.
     bind_exn (astype_int64 L (map_of d ''item'')) (\<lambda>item.
     bind_exn (timeStamp_to_datetime L tz (map_of d ''timeStamp'')) (\<lambda>time_absolute.
     bind_exn (astype_category (map_of d ''question'')) (\<lambda>question.
     bind_exn (astype_category (map_of d ''input'')) (\<lambda>input.
       Inr [VInt number, VInt item, VObj question, VObj input,
            VObj (map_of d ''range''), VObj (map_of d ''response''),
            VTimestamp time_absolute])))))"

text \<open>\<open>time_absolute - start\<close>: \<open>NaT\<close> on either side gives \<open>NaT\<close>.\<close>

definition sub_start :: "timestamp option \<Rightarrow> timestamp option \<Rightarrow> exn + 'f val" where
  "sub_start t start =
     (case (t, start) of
        (Some a, Some b) \<Rightarrow>
          if in64 (nanos a - nanos b) then Inr (VTimedelta (Some (nanos a - nanos b)))
          else Inl OverflowError
      | _ \<Rightarrow> Inr (VTimedelta None))"

definition survey_elapsed :: "timestamp option \<Rightarrow> 'f val list \<Rightarrow> exn + 'f val list" where
  "survey_elapsed start r =
     (case r ! 6 of
        VTimestamp t \<Rightarrow> bind_exn (sub_start t start) (\<lambda>e. Inr (take 6 r @ [e, VTimestamp t]))
      | _ \<Rightarrow> Inl TypeError)"

definition survey_columns :: "(string \<times> dtype) list" where
  "survey_columns =
     [(''number'', Int64), (''item'', Int64), (''question'', Category), (''input'', Category),
      (''range'', Object), (''response'', Object), (''time_elapsed'', Timedelta64),
      (''time_absolute'', Datetime64)]"

definition process_json_objs ::
  "'f lib \<Rightarrow> string \<Rightarrow> (nat \<times> 'f pydict) list \<Rightarrow>
   'f diag list \<times> (exn + 'f metadata \<times> 'f dataframe)" where
  "process_json_objs L tz objs =
     (let meta0 = [''Parsed_on'' \<mapsto> PStr (get_utc_now L), ''StudyName'' \<mapsto> PStr ''NA'',
                   ''StudyInstance'' \<mapsto> PStr ''NA''];
          s0 = \<lparr>meta_out = meta0, rows_survey = [], said = []\<rparr>
      in bind_log
           (if objs \<noteq> [] then process_objs s0 (map snd objs)
            else ([NoMetadata], Inr s0))
           (\<lambda>s. bind_log ([], collect (map (survey_cast L tz) (rows_survey s)))
             (\<lambda>cast. bind_log (snd (get_start_timestamp L tz (meta_out s)), Inr ())
               (\<lambda>u. ([],
                  bind_exn
                    (collect (map (survey_elapsed (fst (get_start_timestamp L tz (meta_out s))))
                       cast))
                    (\<lambda>rs. Inr (meta_out s, \<lparr>columns = survey_columns, rows = rs\<rparr>)))))))"

section \<open>Absolute timestamps\<close>

text \<open>
  \<open>time_elapsed + start\<close> on one cell. Adding \<open>NaT\<close> to a duration gives the
  not-a-time duration; a sum outside 64 bits raises.
\<close>

definition add_start :: "'f val \<Rightarrow> timestamp option \<Rightarrow> exn + 'f val" where
  "add_start v start =
     (case v of
        VTimedelta e \<Rightarrow>
          (case start of
             None \<Rightarrow> Inr (VTimedelta None)
           | Some s \<Rightarrow>
               (case e of
                  None \<Rightarrow> Inr (VTimestamp None)
                | Some d \<Rightarrow>
                    if in64 (d + nanos s) then Inr (VTimestamp (Some (Timestamp (d + nanos s) (zone s))))
                    else Inl OverflowError))
      | _ \<Rightarrow> Inl TypeError)"

text \<open>\<open>df[name] = vals\<close>: a column of that name is replaced, a new one is appended.\<close>

definition set_column :: "string \<Rightarrow> dtype \<Rightarrow> 'f val list \<Rightarrow> 'f dataframe \<Rightarrow> 'f dataframe" where
  "set_column name d vals df =
     (case col_index name (columns df) of
        Some j \<Rightarrow>
          \<lparr>columns = (columns df)[j := (name, d)],
           rows = map2 (\<lambda>r v. r[j := v]) (rows df) vals\<rparr>
      | None \<Rightarrow>
          \<lparr>columns = columns df @ [(name, d)],
           rows = map2 (\<lambda>r v. r @ [v]) (rows df) vals\<rparr>)"

definition process_absolute_timestamps ::
  "'f lib \<Rightarrow> string \<Rightarrow> 'f metadata \<Rightarrow> 'f dataframe \<Rightarrow> 'f diag list \<times> (exn + 'f dataframe)" where
  "process_absolute_timestamps L tz metadata df =
     (case col_index ''time_elapsed'' (columns df) of
        None \<Rightarrow> ([], Inl KeyError)
      | Some j \<Rightarrow>
          (let start = fst (get_start_timestamp L tz metadata) in
           (snd (get_start_timestamp L tz metadata),
            bind_exn (collect (map (\<lambda>r. add_start (r ! j) start) (rows df)))
              (\<lambda>vals. Inr (set_column ''time_absolute''
                             (if start = None then Timedelta64 else Datetime64) vals df)))))"

section \<open>\<open>parse_file\<close>\<close>

definition update_metadata :: "'f metadata \<Rightarrow> 'f pydict \<Rightarrow> 'f metadata" where
  "update_metadata original_metadata new_metadata =
     fold (\<lambda>(k, v) m. m(k \<mapsto> v)) new_metadata original_metadata"

text \<open>\<open>df[name].max()\<close> of a duration column: the greatest duration, \<open>NaT\<close> if there is none.\<close>

fun td_max :: "'f val list \<Rightarrow> int option" where
  "td_max [] = None"
| "td_max (VTimedelta (Some d) # vs) =
     (case td_max vs of None \<Rightarrow> Some d | Some m \<Rightarrow> Some (max d m))"
| "td_max (v # vs) = td_max vs"

definition column_max :: "string \<Rightarrow> 'f dataframe \<Rightarrow> exn + int option" where
  "column_max name df =
     (case col_index name (columns df) of
        None \<Rightarrow> Inl KeyError
      | Some j \<Rightarrow> Inr (td_max (map (\<lambda>r. r ! j) (rows df))))"

record 'f file_data =
  metadata :: "'f metadata"
  data_hr :: "'f dataframe option"
  data_accel :: "'f dataframe option"
  data_survey :: "'f dataframe option"

definition non_empty :: "'f dataframe \<Rightarrow> 'f dataframe option" where
  "non_empty df = (if rows df = [] then None else Some df)"

text \<open>
  \<open>Parser.parse_file\<close>; \<open>tz\<close> is the parser's timezone. Only the reading pass stands
  inside the \<open>try\<close>; what the later steps raise leaves \<open>parse_file\<close>.
\<close>

definition parse_file ::
  "'f lib \<Rightarrow> string \<Rightarrow> rat \<Rightarrow> file_input \<Rightarrow> 'f diag list \<times> (exn + 'f file_data)" where
  "parse_file L tz version f =
     (let a = read_file L version f in
      bind_log (printed a, Inr ()) (\<lambda>u.
      bind_log (dataframe_from_list (rows_hr a) cols_hr) (\<lambda>df_hr0.
      bind_log (dataframe_from_list (rows_accel a) cols_accel) (\<lambda>df_accel0.
      bind_log (process_json_objs L tz (json_objs a)) (\<lambda>(meta, df_survey).
      bind_log (process_absolute_timestamps L tz meta df_hr0) (\<lambda>df_hr.
      bind_log (process_absolute_timestamps L tz meta df_accel0) (\<lambda>df_accel.
      bind_log ([], column_max ''time_elapsed'' df_hr) (\<lambda>duration_hr.
      bind_log ([], column_max ''time_elapsed'' df_accel) (\<lambda>duration_accel.
        ([], Inr
          \<lparr>metadata =
             update_metadata meta
               [(''n_samples_hr'', PInt (int (length (rows df_hr)))),
                (''n_samples_accel'', PInt (int (length (rows df_accel)))),
                (''n_survey_responses'', PInt (int (length (rows df_survey)))),
                (''duration_hr'', PTimedelta duration_hr),
                (''duration_accel'', PTimedelta duration_accel)],
           data_hr = non_empty df_hr,
           data_accel = non_empty df_accel,
           data_survey = non_empty df_survey\<rparr>))))))))))"

section \<open>The period selector\<close>

text \<open>
  \<open>select_period\<close> is given objects and returns objects, and the claim about it is that
  it changes none of them, so the objects live in a store: a list, the address of an
  object its index. A \<open>FileData\<close> is a \<open>dict\<close> from keys to addresses; the metadata is
  a mapping that is no table. Allocation appends to the store.
\<close>

datatype 'f obj =
    ODataFrame "'f dataframe"
  | ODict "(string \<times> nat) list"
  | OMapping "'f metadata"

type_synonym 'f store = "'f obj list"

definition lookup :: "'f store \<Rightarrow> nat \<Rightarrow> 'f obj option" where
  "lookup h a = (if a < length h then Some (h ! a) else None)"

text \<open>
  Truth of an argument in \<open>if time_start and time_end\<close>: \<open>None\<close> is false, a
  \<open>Timestamp\<close> is true, and a \<open>Timedelta\<close> is true when it is not zero.
\<close>

fun truthy :: "tval option \<Rightarrow> bool" where
  "truthy None = False"
| "truthy (Some (TS t)) = True"
| "truthy (Some (TD d)) = (d \<noteq> 0)"

fun t_add :: "tval \<Rightarrow> tval \<Rightarrow> exn + tval" where
  "t_add (TS a) (TD d) =
     (if in64 (nanos a + d) then Inr (TS (Timestamp (nanos a + d) (zone a))) else Inl OverflowError)"
| "t_add (TD d) (TS a) =
     (if in64 (d + nanos a) then Inr (TS (Timestamp (d + nanos a) (zone a))) else Inl OverflowError)"
| "t_add (TD a) (TD b) = (if in64 (a + b) then Inr (TD (a + b)) else Inl OverflowError)"
| "t_add (TS a) (TS b) = Inl TypeError"

fun t_sub :: "tval \<Rightarrow> tval \<Rightarrow> exn + tval" where
  "t_sub (TS a) (TD d) =
     (if in64 (nanos a - d) then Inr (TS (Timestamp (nanos a - d) (zone a))) else Inl OverflowError)"
| "t_sub (TS a) (TS b) =
     (if in64 (nanos a - nanos b) then Inr (TD (nanos a - nanos b)) else Inl OverflowError)"
| "t_sub (TD a) (TD b) = (if in64 (a - b) then Inr (TD (a - b)) else Inl OverflowError)"
| "t_sub (TD d) (TS a) = Inl TypeError"

text \<open>The bounds of the window, or the \<open>ValueError\<close> asking for two of the three.\<close>

definition window ::
  "tval option \<Rightarrow> tval option \<Rightarrow> tval option \<Rightarrow> 'f diag list \<times> (exn + tval \<times> tval)" where
  "window time_start time_end duration =
     (if truthy time_start \<and> truthy time_end then
        (case (time_start, time_end) of
           (Some s, Some e) \<Rightarrow> ((if truthy duration then [IgnoringDuration] else []), Inr (s, e))
         | _ \<Rightarrow> ([], Inl ValueError))
      else if truthy time_start \<and> truthy duration then
        (case (time_start, duration) of
           (Some s, Some d) \<Rightarrow> ([], bind_exn (t_add s d) (\<lambda>t2. Inr (s, t2)))
         | _ \<Rightarrow> ([], Inl ValueError))
      else if truthy time_end \<and> truthy duration then
        (case (time_end, duration) of
           (Some e, Some d) \<Rightarrow> ([], bind_exn (t_sub e d) (\<lambda>t1. Inr (t1, e)))
         | _ \<Rightarrow> ([], Inl ValueError))
      else ([], Inl ValueError))"

fun tv_num :: "tval \<Rightarrow> int" where
  "tv_num (TS t) = nanos t"
| "tv_num (TD d) = d"

fun is_TS :: "tval \<Rightarrow> bool" where
  "is_TS (TS t) = True"
| "is_TS (TD d) = False"

fun cell_tval :: "'f val \<Rightarrow> tval option" where
  "cell_tval (VTimedelta (Some d)) = Some (TD d)"
| "cell_tval (VTimestamp (Some t)) = Some (TS t)"
| "cell_tval v = None"

text \<open>\<open>min()\<close> and \<open>max()\<close> of a time column skip \<open>NaT\<close>; with nothing left they are \<open>NaT\<close>.\<close>

fun series_max :: "'f val list \<Rightarrow> tval option" where
  "series_max [] = None"
| "series_max (v # vs) =
     (case cell_tval v of
        None \<Rightarrow> series_max vs
      | Some x \<Rightarrow>
          (case series_max vs of
             None \<Rightarrow> Some x
           | Some m \<Rightarrow> Some (if tv_num m < tv_num x then x else m)))"

fun series_min :: "'f val list \<Rightarrow> tval option" where
  "series_min [] = None"
| "series_min (v # vs) =
     (case cell_tval v of
        None \<Rightarrow> series_min vs
      | Some x \<Rightarrow>
          (case series_min vs of
             None \<Rightarrow> Some x
           | Some m \<Rightarrow> Some (if tv_num x < tv_num m then x else m)))"

text \<open>
  A comparison of two scalars: with \<open>NaT\<close> it is false, between a \<open>Timestamp\<close> and a
  \<open>Timedelta\<close> it raises.
\<close>

definition scalar_gt :: "tval \<Rightarrow> tval option \<Rightarrow> exn + bool" where
  "scalar_gt t mo =
     (case mo of
        None \<Rightarrow> Inr False
      | Some m \<Rightarrow> if is_TS t = is_TS m then Inr (tv_num m < tv_num t) else Inl TypeError)"

definition scalar_lt :: "tval \<Rightarrow> tval option \<Rightarrow> exn + bool" where
  "scalar_lt t mo =
     (case mo of
        None \<Rightarrow> Inr False
      | Some m \<Rightarrow> if is_TS t = is_TS m then Inr (tv_num t < tv_num m) else Inl TypeError)"

definition kind_matches :: "dtype \<Rightarrow> tval \<Rightarrow> bool" where
  "kind_matches d t = (if is_TS t then d = Datetime64 else d = Timedelta64)"

definition in_window :: "tval \<Rightarrow> tval \<Rightarrow> nat \<Rightarrow> 'f val list \<Rightarrow> bool" where
  "in_window t1 t2 j r =
     (case cell_tval (r ! j) of
        None \<Rightarrow> False
      | Some x \<Rightarrow> tv_num t1 \<le> tv_num x \<and> tv_num x \<le> tv_num t2)"

text \<open>
  \<open>_select\<close> on the object at address \<open>v\<close>. A table is copied (a new object), the
  window is compared with the column's range, and the rows in the window go into
  another new object, which is returned; anything else is returned as it is. A column
  that holds neither durations nor timestamps cannot be compared with the window. An
  address outside the store is no Python value and is answered with an exception.
\<close>

definition select_one ::
  "string \<Rightarrow> tval \<Rightarrow> tval \<Rightarrow> string \<Rightarrow> nat \<Rightarrow> 'f store \<Rightarrow>
   'f store \<times> 'f diag list \<times> (exn + nat)" where
  "select_one time_column_name t1 t2 name v h =
     (case lookup h v of
        None \<Rightarrow> (h, [], Inl AttributeError)
      | Some (ODataFrame df_in) \<Rightarrow>
          (let h1 = h @ [ODataFrame df_in] in
           case col_index time_column_name (columns df_in) of
             None \<Rightarrow> (h1, [], Inl KeyError)
           | Some j \<Rightarrow>
               (let d = snd (columns df_in ! j);
                    col = map (\<lambda>r. r ! j) (rows df_in)
                in if d \<noteq> Timedelta64 \<and> d \<noteq> Datetime64 then (h1, [], Inl TypeError)
                   else
                     (case scalar_gt t1 (series_max col) of
                        Inl e \<Rightarrow> (h1, [], Inl e)
                      | Inr past \<Rightarrow>
                          (case (if past then Inr False else scalar_lt t2 (series_min col)) of
                             Inl e \<Rightarrow> (h1, [], Inl e)
                           | Inr early \<Rightarrow>
                               (let warn = (if past then [StartOutOfRange]
                                            else if early then [EndOutOfRange] else []);
                                    kept = filter (in_window t1 t2 j) (rows df_in)
                                in if \<not> (kind_matches d t1 \<and> kind_matches d t2)
                                   then (h1, warn, Inl TypeError)
                                   else (h1 @ [ODataFrame (df_in\<lparr>rows := kept\<rparr>)],
                                         warn @ [Samples name (length kept)],
                                         Inr (length h1)))))))
      | Some other \<Rightarrow> (h, [], Inr v))"

fun select_items ::
  "string \<Rightarrow> tval \<Rightarrow> tval \<Rightarrow> (string \<times> nat) list \<Rightarrow> 'f store \<Rightarrow>
   'f store \<times> 'f diag list \<times> (exn + (string \<times> nat) list)" where
  "select_items c t1 t2 [] h = (h, [], Inr [])"
| "select_items c t1 t2 ((k, v) # kvs) h =
     (case select_one c t1 t2 k v h of
        (h1, l1, Inl e) \<Rightarrow> (h1, l1, Inl e)
      | (h1, l1, Inr v') \<Rightarrow>
          (case select_items c t1 t2 kvs h1 of
             (h2, l2, Inl e) \<Rightarrow> (h2, l1 @ l2, Inl e)
           | (h2, l2, Inr kvs') \<Rightarrow> (h2, l1 @ l2, Inr ((k, v') # kvs'))))"

definition select_period ::
  "'f store \<Rightarrow> nat \<Rightarrow> tval option \<Rightarrow> tval option \<Rightarrow> tval option \<Rightarrow> string \<Rightarrow>
   'f store \<times> 'f diag list \<times> (exn + nat)" where
  "select_period h data time_start time_end duration time_column_name =
     (case window time_start time_end duration of
        (l0, Inl e) \<Rightarrow> (h, l0, Inl e)
      | (l0, Inr (t1, t2)) \<Rightarrow>
          (case lookup h data of
             None \<Rightarrow> (h, l0 @ [SelectingPeriod t1 t2], Inl AttributeError)
           | Some (ODataFrame df) \<Rightarrow>
               (case select_one time_column_name t1 t2 ''(single)'' data h of
                  (h', l, r) \<Rightarrow> (h', l0 @ [SelectingPeriod t1 t2] @ l, r))
           | Some (ODict kvs) \<Rightarrow>
               (case select_items time_column_name t1 t2 kvs h of
                  (h', l, Inl e) \<Rightarrow> (h', l0 @ [SelectingPeriod t1 t2] @ l, Inl e)
                | (h', l, Inr kvs') \<Rightarrow>
                    (h' @ [ODict kvs'], l0 @ [SelectingPeriod t1 t2] @ l, Inr (length h')))
           | Some (OMapping m) \<Rightarrow>
               (h @ [OMapping m], l0 @ [SelectingPeriod t1 t2], Inr (length h))))"

section \<open>Notions for the statements\<close>

text \<open>
  One row through \<open>_dataframe_from_list\<close>: the cells cast to the schema, then the
  \<open>time_elapsed\<close> cell from milliseconds to a duration.
\<close>

definition typed_row :: "(string \<times> dtype) list \<Rightarrow> cell list \<Rightarrow> exn + 'f val list" where
  "typed_row cols r =
     bind_exn (astype_row cols r) (\<lambda>vs.
       case col_index ''time_elapsed'' cols of
         None \<Rightarrow> Inl KeyError
       | Some j \<Rightarrow> bind_exn (to_timedelta_ms (vs ! j)) (\<lambda>v. Inr (vs[j := v])))"

definition is_table :: "'f store \<Rightarrow> nat \<Rightarrow> bool" where
  "is_table h a = (case lookup h a of Some (ODataFrame df) \<Rightarrow> True | _ \<Rightarrow> False)"

text \<open>
  An entry of the input bundle (in store \<open>h\<close>) and the entry of the output bundle (in
  store \<open>h'\<close>) under the same key: a table has become a table at a new address, anything
  else is at its old address and is the same object.
\<close>

definition entry_kept ::
  "'f store \<Rightarrow> 'f store \<Rightarrow> string \<times> nat \<Rightarrow> string \<times> nat \<Rightarrow> bool" where
  "entry_kept h h' kv kv' =
     (fst kv' = fst kv \<and>
      (if is_table h (snd kv) then length h \<le> snd kv' \<and> is_table h' (snd kv')
       else snd kv' = snd kv \<and> lookup h' (snd kv') = lookup h (snd kv)))"

text \<open>The cell of a row under a column name, and the rows of a table that may be absent.\<close>

definition cell :: "'f dataframe \<Rightarrow> string \<Rightarrow> 'f val list \<Rightarrow> 'f val option" where
  "cell df name r =
     (case col_index name (columns df) of
        None \<Rightarrow> None
      | Some j \<Rightarrow> if j < length r then Some (r ! j) else None)"













section \<open>Concrete inputs\<close>

text \<open>
  A library in which no line decodes as JSON and every other call outside the exact
  ranges raises: enough for files that hold data rows only.
\<close>

definition plain_lib :: "unit lib" where
  "plain_lib =
     \<lparr>json_loads = (\<lambda>s. Inl JSONDecodeError),
      get_utc_now = ''2025-03-01T21:13:42+00:00'',
      true_div_round = (\<lambda>n. Inl OverflowError),
      to_datetime_float = (\<lambda>x. Inl TypeError),
      to_datetime_str = (\<lambda>s. Inl ValueError),
      float_to_int64 = (\<lambda>x. Inl TypeError),
      ms_to_datetime = (\<lambda>v. Inl TypeError)\<rparr>"

text \<open>
  The start-of-record line of the scenario, and the object \<open>json.loads\<close> returns on it:
  a \<open>Status\<close> object in state \<open>START_RECORD\<close> whose \<open>Record\<close> carries
  \<open>UNIXTimeStamp = 1700000000000\<close>, which the metadata step stores under
  \<open>start_UNIXTimeStamp\<close>.
\<close>

definition start_line :: string where
  \<open>start_line =
     ''{"Status": {"state": "START_RECORD"}, "Record": {"UNIXTimeStamp": 1700000000000}}''\<close>

definition start_obj :: "unit pydict" where
  "start_obj =
     [(''Status'', PDict [(''state'', PStr ''START_RECORD'')]),
      (''Record'', PDict [(''UNIXTimeStamp'', PInt 1700000000000)])]"

definition scenario_lib :: "unit lib" where
  "scenario_lib =
     plain_lib\<lparr>json_loads :=
       (\<lambda>s. if s = start_line then Inr start_obj else Inl JSONDecodeError)\<rparr>"

text \<open>A table of two samples, at 100 and 105 nanoseconds after the epoch, alone in a store.\<close>

definition sample_df :: "unit dataframe" where
  "sample_df =
     \<lparr>columns = [(''time_elapsed'', Timedelta64), (''time_absolute'', Datetime64)],
      rows = [[VTimedelta (Some 0), VTimestamp (Some (Timestamp 100 ''UTC''))],
              [VTimedelta (Some 5), VTimestamp (Some (Timestamp 105 ''UTC''))]]\<rparr>"

definition sample_store :: "unit store" where
  "sample_store = [ODataFrame sample_df]"

text \<open>A bundle in a store: the metadata, one table, and the \<open>dict\<close> that refers to both.\<close>

definition bundle_store :: "unit store" where
  "bundle_store =
     [OMapping [''StudyName'' \<mapsto> PStr ''NA''], ODataFrame sample_df,
      ODict [(''metadata'', 0), (''data_hr'', 1)]]"

text \<open>The heart-rate table that \<open>parse_file\<close> builds in the scenario.\<close>

definition scenario_hr :: "unit dataframe" where
  "scenario_hr =
     \<lparr>columns = [(''time_elapsed'', Timedelta64), (''heart_rate_bpm'', Int16),
                 (''confidence'', UInt8), (''ppg_raw'', Int32), (''ppg_filter'', Int32),
                 (''time_absolute'', Datetime64)],
      rows = [[VTimedelta (Some 5000000000), VInt 72, VInt 95, VInt 1000, VInt 2000,
               VTimestamp (Some (Timestamp 1705000000000 ''UTC''))]]\<rparr>"

section \<open>Evaluation on concrete lines\<close>

lemmas csv_defs = csv_row_def parse_process_char_def start_field_def parse_add_char_def
  parse_save_field_def is_newline_def quotechar_def delimiter_def field_limit_def

lemmas strip_defs = py_strip_def strip_chars_def py_isspace_def

lemmas int_defs = py_int_def strip_defs is_decimal_def digit_val_def max_str_digits_def

lemmas classify_defs = process_line_def strip_defs startswith_A_def py_isdigit_def
  is_decimal_def cols_hr_def cols_accel_def

lemmas table_defs = dataframe_from_list_def has_missing_def astype_row_def astype_cell_def
  int_defs in_range_def to_timedelta_col_def to_timedelta_ms_def in64_def

lemmas json_defs = process_json_objs_def process_obj_def has_key_def items_of_def
  subscript_def put_all_def get_start_timestamp_def to_datetime_def in64_def

lemmas finish_defs = process_absolute_timestamps_def add_start_def set_column_def
  column_max_def non_empty_def

lemma strip_start_line: "py_strip start_line = start_line"
  by (simp add: strip_defs start_line_def)

lemma hd_start_line: "start_line \<noteq> [] \<and> hd start_line = CHR ''{''"
  by (simp add: start_line_def)

lemma process_start_line:
  "process_line scenario_lib version n start_line a =
     Inr (a\<lparr>json_objs := json_objs a @ [(n, start_obj)]\<rparr>)"
  by (simp add: process_line_def strip_start_line hd_start_line scenario_lib_def)

lemma csv_hr_line:
  "csv_row ''5000,72,95,1000,2000'' = Inr [''5000'', ''72'', ''95'', ''1000'', ''2000'']"
  by (simp add: csv_defs)

lemma process_hr_line:
  "\<not> version < 2 / 10 \<Longrightarrow>
   process_line L version n ''5000,72,95,1000,2000'' a =
     Inr (a\<lparr>rows_hr := rows_hr a @
            [[CStr ''5000'', CStr ''72'', CStr ''95'', CStr ''1000'', CStr ''2000'']]\<rparr>)"
  by (simp add: classify_defs csv_hr_line)

lemma table_hr_line:
  "dataframe_from_list
     [[CStr ''5000'', CStr ''72'', CStr ''95'', CStr ''1000'', CStr ''2000'']] cols_hr =
   ([], Inr \<lparr>columns = [(''time_elapsed'', Timedelta64), (''heart_rate_bpm'', Int16),
                        (''confidence'', UInt8), (''ppg_raw'', Int32), (''ppg_filter'', Int32)],
             rows = [[VTimedelta (Some 5000000000), VInt 72, VInt 95, VInt 1000,
                      VInt 2000]]\<rparr>)"
  by (simp add: table_defs cols_hr_def)

lemma table_no_hr:
  "dataframe_from_list [] cols_hr =
   ([], Inr \<lparr>columns = [(''time_elapsed'', Timedelta64), (''heart_rate_bpm'', Int16),
                        (''confidence'', UInt8), (''ppg_raw'', Int32), (''ppg_filter'', Int32)],
             rows = []\<rparr>)"
  by (simp add: dataframe_from_list_def cols_hr_def to_timedelta_col_def)

lemma table_no_accel:
  "dataframe_from_list [] cols_accel =
   ([], Inr \<lparr>columns = [(''time_elapsed'', Timedelta64), (''x'', Int32), (''y'', Int32),
                        (''z'', Int32), (''magnitude'', Int32), (''difference'', Int32)],
             rows = []\<rparr>)"
  by (simp add: dataframe_from_list_def cols_accel_def to_timedelta_col_def)

lemma read_scenario:
  "\<not> version < 2 / 10 \<Longrightarrow>
   read_file scenario_lib version (Inr ([start_line, ''5000,72,95,1000,2000''], None)) =
     \<lparr>json_objs = [(0, start_obj)],
      rows_hr = [[CStr ''5000'', CStr ''72'', CStr ''95'', CStr ''1000'', CStr ''2000'']],
      rows_accel = [], printed = [Reading]\<rparr>"
  by (simp add: read_file_def process_hr_line process_start_line)

lemma csv_empty_first: "csv_row '',1'' = Inr [[], ''1'']"
  by (simp add: csv_defs)

lemma process_empty_first: "process_line L version n '',1'' a = Inl IndexError"
  by (simp add: classify_defs csv_empty_first)

lemma read_empty_first:
  "read_file L version (Inr (['',1'', ''5000,72,95,1000,2000''], None)) =
     \<lparr>json_objs = [], rows_hr = [], rows_accel = [],
      printed = [Reading, ErrorExn IndexError]\<rparr>"
  by (simp add: read_file_def process_empty_first handler_def)










lemma bind_exn_Inr: "bind_exn m f = Inr y \<longleftrightarrow> (\<exists>x. m = Inr x \<and> f x = Inr y)"
  by (cases m) auto

lemma collect_Inr: "collect ms = Inr xs \<longleftrightarrow> ms = map Inr xs"
proof (induction ms arbitrary: xs)
  case Nil
  then show ?case by auto
next
  case (Cons m ms)
  show ?case
  proof (cases m)
    case (Inl e)
    then show ?thesis by (cases xs) auto
  next
    case (Inr x)
    then show ?thesis using Cons by (cases xs) (auto simp: bind_exn_Inr)
  qed
qed

lemma collect_map_Inr:
  "collect (map f xs) = Inr ys \<longleftrightarrow> list_all2 (\<lambda>x y. f x = Inr y) xs ys"
  by (auto simp: collect_Inr list_all2_conv_all_nth list_eq_iff_nth_eq)

lemma length_filter_compl:
  "length xs - length (filter (\<lambda>x. \<not> P x) xs) = length (filter P xs)"
  using sum_length_filter_compl [of P xs] by simp

lemma dataframe_from_list_Inr:
  assumes "dataframe_from_list rs cols = (msgs, Inr df)"
  shows "list_all (\<lambda>r. length r = length cols) rs"
    and "list_all2 (\<lambda>r r'. typed_row cols r = Inr r') (filter (\<lambda>r. \<not> has_missing r) rs) (rows df)"
    and "msgs = (if 0 < length (filter has_missing rs)
                 then [DroppedRows (length (filter has_missing rs))] else [])"
    and "\<exists>j. col_index ''time_elapsed'' cols = Some j \<and>
             columns df = cols[j := (''time_elapsed'', Timedelta64)]"
proof -
  let ?kept = "filter (\<lambda>r. \<not> has_missing r) rs"
  show len: "list_all (\<lambda>r. length r = length cols) rs"
    using assms by (auto simp: dataframe_from_list_def split: if_splits)
  have split_rows: "length (filter has_missing rs) + length ?kept = length rs"
    by (rule sum_length_filter_compl)
  have "msgs = (if 0 < length rs - length ?kept then [DroppedRows (length rs - length ?kept)]
                else [])"
    using assms len by (auto simp: dataframe_from_list_def Let_def)
  moreover have "length rs - length ?kept = length (filter has_missing rs)"
    using split_rows by arith
  ultimately show "msgs = (if 0 < length (filter has_missing rs)
                 then [DroppedRows (length (filter has_missing rs))] else [])"
    by simp
  from assms len obtain vs where vs: "collect (map (astype_row cols) ?kept) = Inr vs"
    and td: "to_timedelta_col ''time_elapsed'' \<lparr>columns = cols, rows = vs\<rparr> = Inr df"
    by (auto simp: dataframe_from_list_def Let_def bind_exn_Inr)
  from td obtain j where j: "col_index ''time_elapsed'' cols = Some j"
    by (auto simp: to_timedelta_col_def split: option.splits)
  from td j obtain rs' where rs': "collect (map (\<lambda>r. bind_exn (to_timedelta_ms (r ! j)) (\<lambda>v. Inr (r[j := v]))) vs) = Inr rs'"
    and df: "df = \<lparr>columns = cols[j := (''time_elapsed'', Timedelta64)], rows = rs'\<rparr>"
    by (auto simp: to_timedelta_col_def bind_exn_Inr)
  from df j show "\<exists>j. col_index ''time_elapsed'' cols = Some j \<and>
             columns df = cols[j := (''time_elapsed'', Timedelta64)]" by simp
  have a: "list_all2 (\<lambda>r v. astype_row cols r = Inr v) ?kept vs"
    using vs by (simp add: collect_map_Inr)
  have b: "list_all2 (\<lambda>v r'. bind_exn (to_timedelta_ms (v ! j)) (\<lambda>x. Inr (v[j := x])) = Inr r') vs rs'"
    using rs' by (simp add: collect_map_Inr)
  have "list_all2 (\<lambda>r r'. typed_row cols r = Inr r') ?kept rs'"
    using a b j
    by (auto simp: list_all2_conv_all_nth typed_row_def)
  then show "list_all2 (\<lambda>r r'. typed_row cols r = Inr r') ?kept (rows df)"
    using df by simp
qed

lemma table_one_missing:
  "dataframe_from_list
     [[CStr ''5000'', CStr ''72'', CStr ''95'', CStr ''1000'', CStr ''2000''],
      [CStr ''6000'', CStr [], CStr ''95'', CStr ''1000'', CStr ''2000'']] cols_hr =
   ([DroppedRows 1],
    Inr \<lparr>columns = [(''time_elapsed'', Timedelta64), (''heart_rate_bpm'', Int16),
                    (''confidence'', UInt8), (''ppg_raw'', Int32), (''ppg_filter'', Int32)],
         rows = [[VTimedelta (Some 5000000000), VInt 72, VInt 95, VInt 1000, VInt 2000]]\<rparr>)"
  by (simp add: table_defs cols_hr_def)

lemma select_one_table:
  assumes "lookup h v = Some (ODataFrame df)"
    and "select_one c t1 t2 name v h = (h', l, r)"
  shows "(h' = h @ [ODataFrame df] \<and> (\<exists>e. r = Inl e)) \<or>
         (\<exists>kept. h' = h @ [ODataFrame df, ODataFrame (df\<lparr>rows := kept\<rparr>)] \<and>
            r = Inr (Suc (length h)))"
proof (cases "col_index c (columns df)")
  case None
  then show ?thesis using assms by (auto simp: select_one_def)
next
  case (Some j)
  show ?thesis
  proof (cases "scalar_gt t1 (series_max (map (\<lambda>r. r ! j) (rows df)))")
    case (Inl e)
    then show ?thesis using assms Some by (auto simp: select_one_def Let_def split: if_splits)
  next
    case past: (Inr past)
    show ?thesis
    proof (cases "if past then Inr False else scalar_lt t2 (series_min (map (\<lambda>r. r ! j) (rows df)))")
      case (Inl e)
      then show ?thesis using assms Some past by (auto simp: select_one_def Let_def split: if_splits)
    next
      case (Inr early)
      then show ?thesis using assms Some past
        by (auto simp: select_one_def Let_def split: if_splits)
    qed
  qed
qed

lemma select_one_other:
  assumes "\<not> is_table h v" and "select_one c t1 t2 name v h = (h', l, r)"
  shows "h' = h \<and> (r = Inl AttributeError \<and> lookup h v = None \<or> r = Inr v \<and> v < length h)"
  using assms
  by (cases "lookup h v") (auto simp: select_one_def is_table_def lookup_def split: obj.splits if_splits)

lemma is_table_Some: "is_table h v \<longleftrightarrow> (\<exists>df. lookup h v = Some (ODataFrame df))"
  by (auto simp: is_table_def split: option.splits obj.splits)

lemma lookup_append: "a < length h \<Longrightarrow> lookup (h @ ext) a = lookup h a"
  by (simp add: lookup_def nth_append)

lemma is_table_append: "a < length h \<Longrightarrow> is_table (h @ ext) a = is_table h a"
  by (simp add: is_table_def lookup_append)

lemma is_table_valid: "is_table h a \<Longrightarrow> a < length h"
  by (auto simp: is_table_def lookup_def split: if_splits)

lemma select_one_frame:
  assumes "select_one c t1 t2 name v h = (h', l, r)"
  shows "\<exists>ext. h' = h @ ext"
    and "r = Inr a \<Longrightarrow> v < length h \<and> entry_kept h h' (k, v) (k, a)"
proof -
  show "\<exists>ext. h' = h @ ext"
  proof (cases "is_table h v")
    case True
    then obtain df where "lookup h v = Some (ODataFrame df)" by (auto simp: is_table_Some)
    from select_one_table [OF this assms] show ?thesis by auto
  next
    case False
    from select_one_other [OF this assms] show ?thesis by auto
  qed
  assume r: "r = Inr a"
  show "v < length h \<and> entry_kept h h' (k, v) (k, a)"
  proof (cases "is_table h v")
    case True
    then obtain df where df: "lookup h v = Some (ODataFrame df)" by (auto simp: is_table_Some)
    from select_one_table [OF this assms] r obtain kept
      where "h' = h @ [ODataFrame df, ODataFrame (df\<lparr>rows := kept\<rparr>)]" "a = Suc (length h)"
      by auto
    then show ?thesis using True is_table_valid [OF True]
      by (simp add: entry_kept_def is_table_def lookup_def nth_append)
  next
    case False
    from select_one_other [OF this assms] r show ?thesis
      using False by (auto simp: entry_kept_def)
  qed
qed

lemma entry_kept_extend:
  assumes "entry_kept h h1 kv kv'" and "snd kv < length h" and "snd kv' < length h1"
  shows "entry_kept h (h1 @ ext) kv kv'"
  using assms by (auto simp: entry_kept_def is_table_append lookup_append split: if_splits)

lemma entry_kept_base:
  assumes "entry_kept (h @ ext) h2 kv kv'" and "snd kv < length h"
    and "length (h @ ext) \<le> length h2"
  shows "entry_kept h h2 kv kv'"
  using assms by (auto simp: entry_kept_def is_table_append lookup_append split: if_splits)

lemma entry_kept_valid:
  "entry_kept h h' kv kv' \<Longrightarrow> snd kv < length h \<Longrightarrow> length h \<le> length h' \<Longrightarrow> snd kv' < length h'"
  by (auto simp: entry_kept_def dest: is_table_valid split: if_splits)

lemma select_items_frame:
  assumes "select_items c t1 t2 kvs h = (h', l, r)" and "\<forall>v \<in> snd ` set kvs. v < length h"
  shows "(\<exists>ext. h' = h @ ext) \<and> (\<forall>kvs'. r = Inr kvs' \<longrightarrow> list_all2 (entry_kept h h') kvs kvs')"
  using assms
proof (induction kvs arbitrary: h h' l r)
  case Nil
  then show ?case by auto
next
  case (Cons kv kvs)
  obtain k v where kv: "kv = (k, v)" by (cases kv)
  obtain h1 l1 r1 where one: "select_one c t1 t2 k v h = (h1, l1, r1)"
    by (cases "select_one c t1 t2 k v h") auto
  from select_one_frame(1) [OF one] obtain e1 where h1: "h1 = h @ e1" by auto
  show ?case
  proof (cases r1)
    case (Inl e)
    then show ?thesis using Cons.prems(1) one kv h1 by auto
  next
    case (Inr v')
    obtain h2 l2 r2 where rest: "select_items c t1 t2 kvs h1 = (h2, l2, r2)"
      by (cases "select_items c t1 t2 kvs h1") auto
    have valid: "\<forall>v \<in> snd ` set kvs. v < length h1"
      using Cons.prems(2) h1 by auto
    from Cons.IH [OF rest valid] obtain e2 where h2: "h2 = h1 @ e2"
      and tail: "\<forall>kvs'. r2 = Inr kvs' \<longrightarrow> list_all2 (entry_kept h1 h2) kvs kvs'"
      by auto
    have h': "h' = h2"
      using Cons.prems(1) one Inr rest kv by (auto split: sum.splits)
    have r: "r = map_sum id (\<lambda>kvs'. (k, v') # kvs') r2"
      using Cons.prems(1) one Inr rest kv by (auto split: sum.splits)
    have vh: "v < length h" using Cons.prems(2) kv by simp
    have head1: "entry_kept h h1 (k, v) (k, v')"
      using select_one_frame(2) [OF one Inr] by simp
    have "snd (k, v') < length h1"
      using entry_kept_valid [OF head1] vh h1 by simp
    then have head: "entry_kept h h2 (k, v) (k, v')"
      using entry_kept_extend [OF head1, of e2] vh h2 by simp
    show ?thesis
    proof (intro conjI allI impI)
      show "\<exists>ext. h' = h @ ext" using h' h2 h1 by simp
      fix kvs' assume "r = Inr kvs'"
      then obtain tl' where r2: "r2 = Inr tl'" and kvs': "kvs' = (k, v') # tl'"
        using r by (cases r2) auto
      have "list_all2 (entry_kept h1 h2) kvs tl'" using tail r2 by simp
      then have "list_all2 (entry_kept h h2) kvs tl'"
      proof (rule list.rel_mono_strong)
        fix x y assume "x \<in> set kvs" and p: "entry_kept h1 h2 x y"
        then have "snd x < length h" using Cons.prems(2) by auto
        then show "entry_kept h h2 x y"
          using entry_kept_base [of h e1 h2 x y] p h1 h2 by simp
      qed
      then show "list_all2 (entry_kept h h') (kv # kvs) kvs'"
        using head kv kvs' h' by simp
    qed
  qed
qed

lemma select_bundle:
  "select_period bundle_store 2
     (Some (TS (Timestamp 100 ''UTC''))) (Some (TS (Timestamp 100 ''UTC''))) None
     ''time_absolute'' =
   (bundle_store @
      [ODataFrame sample_df,
       ODataFrame (sample_df\<lparr>rows :=
         [[VTimedelta (Some 0), VTimestamp (Some (Timestamp 100 ''UTC''))]]\<rparr>),
       ODict [(''metadata'', 0), (''data_hr'', 4)]],
    [SelectingPeriod (TS (Timestamp 100 ''UTC'')) (TS (Timestamp 100 ''UTC'')),
     Samples ''data_hr'' 1],
    Inr 5)"
  by (simp add: select_period_def window_def select_one_def lookup_def bundle_store_def
      sample_df_def scalar_gt_def scalar_lt_def kind_matches_def in_window_def in64_def)

lemma snd_bind_log:
  "snd (bind_log m f) = Inr y \<longleftrightarrow> (\<exists>x. snd m = Inr x \<and> snd (f x) = Inr y)"
  by (cases m; cases "snd m") auto

lemma parse_file_Inr:
  assumes "snd (parse_file L tz version f) = Inr fd"
  obtains hr0 ac0 meta sv hr ac dh da m1 m2 m3 m4 m5 where
    "dataframe_from_list (rows_hr (read_file L version f)) cols_hr = (m1, Inr hr0)"
    "dataframe_from_list (rows_accel (read_file L version f)) cols_accel = (m2, Inr ac0)"
    "process_json_objs L tz (json_objs (read_file L version f)) = (m3, Inr (meta, sv))"
    "process_absolute_timestamps L tz meta hr0 = (m4, Inr hr)"
    "process_absolute_timestamps L tz meta ac0 = (m5, Inr ac)"
    "column_max ''time_elapsed'' hr = Inr dh"
    "column_max ''time_elapsed'' ac = Inr da"
    "fd = \<lparr>metadata =
             update_metadata meta
               [(''n_samples_hr'', PInt (int (length (rows hr)))),
                (''n_samples_accel'', PInt (int (length (rows ac)))),
                (''n_survey_responses'', PInt (int (length (rows sv)))),
                (''duration_hr'', PTimedelta dh),
                (''duration_accel'', PTimedelta da)],
           data_hr = non_empty hr,
           data_accel = non_empty ac,
           data_survey = non_empty sv\<rparr>"
proof -
  from assms obtain hr0 ac0 ms hr ac dh da where
    a: "snd (dataframe_from_list (rows_hr (read_file L version f)) cols_hr) = Inr hr0"
    and b: "snd (dataframe_from_list (rows_accel (read_file L version f)) cols_accel) = Inr ac0"
    and c: "snd (process_json_objs L tz (json_objs (read_file L version f))) = Inr ms"
    and d: "snd (process_absolute_timestamps L tz (fst ms) hr0) = Inr hr"
    and e: "snd (process_absolute_timestamps L tz (fst ms) ac0) = Inr ac"
    and f: "column_max ''time_elapsed'' hr = Inr dh"
    and g: "column_max ''time_elapsed'' ac = Inr da"
    and h: "fd = \<lparr>metadata =
             update_metadata (fst ms)
               [(''n_samples_hr'', PInt (int (length (rows hr)))),
                (''n_samples_accel'', PInt (int (length (rows ac)))),
                (''n_survey_responses'', PInt (int (length (rows (snd ms))))),
                (''duration_hr'', PTimedelta dh),
                (''duration_accel'', PTimedelta da)],
           data_hr = non_empty hr,
           data_accel = non_empty ac,
           data_survey = non_empty (snd ms)\<rparr>"
    by (auto simp: parse_file_def Let_def snd_bind_log split_def)
  show ?thesis
    using that [of "fst (dataframe_from_list (rows_hr (read_file L version f)) cols_hr)" hr0
        "fst (dataframe_from_list (rows_accel (read_file L version f)) cols_accel)" ac0
        "fst (process_json_objs L tz (json_objs (read_file L version f)))" "fst ms" "snd ms"
        "fst (process_absolute_timestamps L tz (fst ms) hr0)" hr
        "fst (process_absolute_timestamps L tz (fst ms) ac0)" ac dh da]
      a b c d e f g h
    by (metis prod.collapse)
qed


lemma update_metadata_summary:
  "update_metadata meta
     [(''n_samples_hr'', a), (''n_samples_accel'', b), (''n_survey_responses'', c),
      (''duration_hr'', d), (''duration_accel'', e)] =
   meta(''n_samples_hr'' \<mapsto> a, ''n_samples_accel'' \<mapsto> b, ''n_survey_responses'' \<mapsto> c,
        ''duration_hr'' \<mapsto> d, ''duration_accel'' \<mapsto> e)"
  by (simp add: update_metadata_def)


lemma col_index_less: "col_index name cols = Some j \<Longrightarrow> j < length cols"
  by (induction cols arbitrary: j) (auto split: if_splits)

lemma col_index_append_new:
  "col_index name cols = None \<Longrightarrow> col_index name (cols @ [(name, d)]) = Some (length cols)"
  by (induction cols) auto

lemma col_index_append_old:
  "col_index name cols = Some j \<Longrightarrow> col_index name (cols @ extra) = Some j"
  by (induction cols arbitrary: j) auto

lemma astype_row_Inr:
  assumes "astype_row cols r = Inr vs" and "length r = length cols"
  shows "length vs = length cols" and "i < length cols \<Longrightarrow> \<exists>n. vs ! i = VInt n"
proof -
  from assms(1) have eq: "map2 (\<lambda>(name, d) c. astype_cell d c) cols r = map Inr vs"
    by (simp add: astype_row_def collect_Inr)
  have "min (length cols) (length r) = length vs"
    using arg_cong [OF eq, of length] by simp
  then show len: "length vs = length cols" using assms(2) by simp
  assume i: "i < length cols"
  from eq have "map2 (\<lambda>(name, d) c. astype_cell d c) cols r ! i = map Inr vs ! i" by simp
  then have "astype_cell (snd (cols ! i)) (r ! i) = Inr (vs ! i)"
    using i len assms(2) by (simp add: split_def)
  then show "\<exists>n. vs ! i = VInt n"
    by (cases "vs ! i")
      (auto simp: astype_cell_def split: cell.splits option.splits if_splits)
qed

lemma typed_row_shape:
  assumes "typed_row cols r = Inr r'" and "length r = length cols"
    and "col_index ''time_elapsed'' cols = Some j"
  shows "length r' = length cols \<and> (\<exists>e. r' ! j = VTimedelta (Some e))"
proof -
  from assms(1,3) obtain vs v where vs: "astype_row cols r = Inr vs"
    and v: "to_timedelta_ms (vs ! j) = Inr v" and r': "r' = vs[j := v]"
    by (auto simp: typed_row_def bind_exn_Inr)
  have j: "j < length cols" using assms(3) by (rule col_index_less)
  from astype_row_Inr [OF vs assms(2)] j obtain n where len: "length vs = length cols"
    and n: "vs ! j = VInt n" by auto
  from v n have "v = VTimedelta (Some (n * 1000000))"
    by (auto simp: to_timedelta_ms_def split: if_splits)
  then show ?thesis using r' len j by simp
qed

lemma dataframe_from_list_shape:
  assumes "dataframe_from_list rs cols = (msgs, Inr df)"
    and "col_index ''time_elapsed'' cols = Some j"
  shows "columns df = cols[j := (''time_elapsed'', Timedelta64)]"
    and "r' \<in> set (rows df) \<Longrightarrow>
           length r' = length cols \<and> (\<exists>e. r' ! j = VTimedelta (Some e))"
proof -
  from dataframe_from_list_Inr(4) [OF assms(1)] assms(2)
  show "columns df = cols[j := (''time_elapsed'', Timedelta64)]" by auto
  assume "r' \<in> set (rows df)"
  then obtain i where i: "i < length (rows df)" and r'i: "r' = rows df ! i"
    by (auto simp: in_set_conv_nth)
  let ?kept = "filter (\<lambda>r. \<not> has_missing r) rs"
  from dataframe_from_list_Inr(2) [OF assms(1)] i
  have li: "i < length ?kept" and t: "typed_row cols (?kept ! i) = Inr r'"
    using r'i by (auto simp: list_all2_conv_all_nth)
  define r where "r = ?kept ! i"
  have r: "r \<in> set ?kept" unfolding r_def using li by (rule nth_mem)
  have t: "typed_row cols r = Inr r'" unfolding r_def using t .
  from r dataframe_from_list_Inr(1) [OF assms(1)] have "length r = length cols"
    by (auto simp: list_all_iff)
  from typed_row_shape [OF t this assms(2)]
  show "length r' = length cols \<and> (\<exists>e. r' ! j = VTimedelta (Some e))" .
qed

lemma process_absolute_timestamps_Inr:
  assumes "process_absolute_timestamps L tz meta df = (msgs, Inr df')"
    and "col_index ''time_elapsed'' (columns df) = Some j"
    and "col_index ''time_absolute'' (columns df) = None"
  shows "\<exists>d. columns df' = columns df @ [(''time_absolute'', d)]"
    and "length (rows df') = length (rows df)"
    and "r' \<in> set (rows df') \<Longrightarrow>
           \<exists>r v. r \<in> set (rows df) \<and> r' = r @ [v] \<and>
             add_start (r ! j) (fst (get_start_timestamp L tz meta)) = Inr v"
proof -
  let ?start = "fst (get_start_timestamp L tz meta)"
  from assms obtain vals where
    vals: "collect (map (\<lambda>r. add_start (r ! j) ?start) (rows df)) = Inr vals"
    and df': "df' = set_column ''time_absolute''
                 (if ?start = None then Timedelta64 else Datetime64) vals df"
    by (auto simp: process_absolute_timestamps_def Let_def bind_exn_Inr)
  from vals have rel: "list_all2 (\<lambda>r v. add_start (r ! j) ?start = Inr v) (rows df) vals"
    by (simp add: collect_map_Inr)
  then have len: "length vals = length (rows df)" by (auto dest: list_all2_lengthD)
  from df' assms(3) have rows': "rows df' = map2 (\<lambda>r v. r @ [v]) (rows df) vals"
    and cols': "columns df' = columns df @
        [(''time_absolute'', if ?start = None then Timedelta64 else Datetime64)]"
    by (simp_all add: set_column_def)
  from cols' show "\<exists>d. columns df' = columns df @ [(''time_absolute'', d)]" by blast
  from rows' len show "length (rows df') = length (rows df)" by simp
  assume "r' \<in> set (rows df')"
  then obtain i where i: "i < length (rows df)" and r': "r' = rows df ! i @ [vals ! i]"
    using rows' len by (auto simp: in_set_conv_nth)
  from rel i have "add_start (rows df ! i ! j) ?start = Inr (vals ! i)"
    by (simp add: list_all2_conv_all_nth)
  then show "\<exists>r v. r \<in> set (rows df) \<and> r' = r @ [v] \<and> add_start (r ! j) ?start = Inr v"
    using i r' by (intro exI [of _ "rows df ! i"] exI [of _ "vals ! i"]) simp
qed

lemma start_after_update:
  "get_start_timestamp L tz
     (update_metadata meta
        [(''n_samples_hr'', a), (''n_samples_accel'', b), (''n_survey_responses'', c),
         (''duration_hr'', d), (''duration_accel'', e)]) =
   get_start_timestamp L tz meta"
  by (simp add: update_metadata_summary get_start_timestamp_def)

lemma start_zone:
  "fst (get_start_timestamp L tz meta) = Some s \<Longrightarrow> zone s = tz"
  by (auto simp: get_start_timestamp_def split: option.splits sum.splits)

lemma backfilled_row:
  assumes df0: "dataframe_from_list rs cols = (m0, Inr df0)"
    and te: "col_index ''time_elapsed'' cols = Some 0"
    and ta: "col_index ''time_absolute'' cols = None"
    and pat: "process_absolute_timestamps L tz meta df0 = (m1, Inr df)"
    and r: "r \<in> set (rows df)"
  shows "\<exists>e. cell df ''time_elapsed'' r = Some (VTimedelta (Some e)) \<and>
           cell df ''time_absolute'' r =
             Some (case fst (get_start_timestamp L tz meta) of
                     None \<Rightarrow> VTimedelta None
                   | Some s \<Rightarrow> VTimestamp (Some (Timestamp (e + nanos s) tz)))"
proof -
  have c0: "columns df0 = cols[0 := (''time_elapsed'', Timedelta64)]"
    using dataframe_from_list_shape(1) [OF df0 te] .
  have pos: "0 < length cols" using col_index_less [OF te] .
  have te0: "col_index ''time_elapsed'' (columns df0) = Some 0"
    using c0 pos by (cases cols) auto
  have ta0: "col_index ''time_absolute'' (columns df0) = None"
    using c0 ta pos by (cases cols) (auto split: if_splits)
  from process_absolute_timestamps_Inr(1) [OF pat te0 ta0] obtain d
    where cols: "columns df = columns df0 @ [(''time_absolute'', d)]" by auto
  from process_absolute_timestamps_Inr(3) [OF pat te0 ta0 r] obtain r0 v
    where r0: "r0 \<in> set (rows df0)" and rv: "r = r0 @ [v]"
      and v: "add_start (r0 ! 0) (fst (get_start_timestamp L tz meta)) = Inr v" by auto
  from dataframe_from_list_shape(2) [OF df0 te r0] obtain e
    where len: "length r0 = length cols" and e: "r0 ! 0 = VTimedelta (Some e)" by auto
  have len0: "length (columns df0) = length cols" using c0 by simp
  have a: "cell df ''time_elapsed'' r = Some (VTimedelta (Some e))"
    using cols rv e len pos col_index_append_old [OF te0]
    by (simp add: cell_def nth_append)
  have b: "cell df ''time_absolute'' r = Some v"
    using cols rv len len0 col_index_append_new [OF ta0, of d]
    by (simp add: cell_def nth_append)
  have "v = (case fst (get_start_timestamp L tz meta) of
               None \<Rightarrow> VTimedelta None
             | Some s \<Rightarrow> VTimestamp (Some (Timestamp (e + nanos s) tz)))"
    using v e start_zone [of L tz meta]
    by (auto simp: add_start_def split: option.splits if_splits)
  with a b show ?thesis by blast
qed

lemma non_empty_Some: "non_empty df = Some t \<Longrightarrow> t = df \<and> rows df \<noteq> []"
  by (auto simp: non_empty_def split: if_splits)

lemma time_elapsed_hr: "col_index ''time_elapsed'' cols_hr = Some 0"
  and time_absolute_hr: "col_index ''time_absolute'' cols_hr = None"
  and time_elapsed_accel: "col_index ''time_elapsed'' cols_accel = Some 0"
  and time_absolute_accel: "col_index ''time_absolute'' cols_accel = None"
  by (simp_all add: cols_hr_def cols_accel_def)




lemma scenario_parse:
  "map_sum id
     (\<lambda>fd. (data_hr fd, data_accel fd, data_survey fd, metadata fd ''start_UNIXTimeStamp''))
     (snd (parse_file scenario_lib ''UTC'' (2 / 10)
        (Inr ([start_line, ''5000,72,95,1000,2000''], None)))) =
   Inr (Some scenario_hr, None, None, Some (PInt 1700000000000))"
  by (simp add: parse_file_def read_scenario table_hr_line table_no_accel json_defs
      start_obj_def finish_defs scenario_hr_def update_metadata_def)

lemma scenario_returns:
  obtains msgs fd where
    "parse_file scenario_lib ''UTC'' (2 / 10)
       (Inr ([start_line, ''5000,72,95,1000,2000''], None)) = (msgs, Inr fd)"
    "data_hr fd = Some scenario_hr" "data_accel fd = None" "data_survey fd = None"
    "metadata fd ''start_UNIXTimeStamp'' = Some (PInt 1700000000000)"
proof -
  let ?p = "parse_file scenario_lib ''UTC'' (2 / 10)
       (Inr ([start_line, ''5000,72,95,1000,2000''], None))"
  from scenario_parse obtain fd where fd: "snd ?p = Inr fd"
    and "data_hr fd = Some scenario_hr" "data_accel fd = None" "data_survey fd = None"
    "metadata fd ''start_UNIXTimeStamp'' = Some (PInt 1700000000000)"
    by (cases "snd ?p") auto
  moreover from fd have "?p = (fst ?p, Inr fd)" by (metis prod.collapse)
  ultimately show ?thesis using that by blast
qed




































section \<open>The claims\<close>

text \<open>
  C2. The start of the record is taken from \<open>start_UNIXTimeStamp\<close>, which the
  specification reads as milliseconds since the epoch: in the scenario (one
  \<open>START_RECORD\<close> object with \<open>1700000000000\<close>, timezone UTC, one heart-rate row
  \<open>5000,72,95,1000,2000\<close>, version 0.2) the row should get
  \<open>time_absolute = 2023-11-14T22:13:20Z + 5s\<close>, the instant
  \<open>1700000005000000000\<close> in nanoseconds. \<open>_get_start_timestamp\<close> calls
  \<open>pd.to_datetime\<close> without a unit, so the value counts nanoseconds: the row has
  \<open>time_elapsed = 5s\<close> and \<open>confidence = 95\<close>, and its \<open>time_absolute\<close> is 1705 seconds
  after the epoch, 1970-01-01T00:28:25Z. The survey table, in the same class, converts
  its \<open>timeStamp\<close> with \<open>unit="ms"\<close>.
\<close>

theorem start_timestamp_read_as_nanoseconds:
  "map_sum id data_hr
     (snd (parse_file scenario_lib ''UTC'' (2 / 10)
        (Inr ([start_line, ''5000,72,95,1000,2000''], None)))) =
   Inr (Some
     \<lparr>columns = [(''time_elapsed'', Timedelta64), (''heart_rate_bpm'', Int16),
                 (''confidence'', UInt8), (''ppg_raw'', Int32), (''ppg_filter'', Int32),
                 (''time_absolute'', Datetime64)],
      rows = [[VTimedelta (Some 5000000000), VInt 72, VInt 95, VInt 1000, VInt 2000,
               VTimestamp (Some (Timestamp 1705000000000 ''UTC''))]]\<rparr>)
   \<and> Timestamp 1705000000000 ''UTC'' \<noteq> Timestamp (1700000000000 * 1000000 + 5000000000) ''UTC''"
  by (simp add: parse_file_def read_scenario table_hr_line table_no_accel json_defs
      start_obj_def finish_defs)

text \<open>
  C4. A line that is no JSON object, no acceleration row and no heart-rate row should get
  an "unknown data" diagnostic and be dropped, the lines after it still being read. When
  the first field of the line is empty, as in \<open>,1\<close>, the test \<open>row[0][0].isdigit()\<close>
  raises \<open>IndexError\<close>; the handler around the loop prints the error and the reading
  ends: no "unknown data" diagnostic, and the well-formed heart-rate row on the next line
  is in no table.
\<close>

theorem empty_first_field_ends_reading:
  "fst (parse_file L tz version (Inr (['',1'', ''5000,72,95,1000,2000''], None))) =
     [Reading, ErrorExn IndexError, NoMetadata, NoStartTimestamp KeyError,
      NoStartTimestamp KeyError, NoStartTimestamp KeyError]
   \<and> map_sum id data_hr
        (snd (parse_file L tz version (Inr (['',1'', ''5000,72,95,1000,2000''], None)))) =
      Inr None"
  by (simp add: parse_file_def read_empty_first table_no_hr table_no_accel json_defs
      finish_defs)

text \<open>
  C5. \<open>select_period\<close> should raise its "two of three" error only when fewer than two
  of \<open>time_start\<close>, \<open>time_end\<close> and \<open>duration\<close> are given. The arguments are tested
  for truth, not for \<open>None\<close>, and a zero \<open>Timedelta\<close> is false: a selection from the
  start of the record, \<open>time_start = Timedelta(0)\<close> with \<open>duration = 10s\<close>, raises the
  error although two of the three are given.
\<close>

theorem zero_start_counts_as_missing:
  "snd (snd (select_period h data (Some (TD 0)) None (Some (TD 10000000000)) c)) =
     Inl ValueError"
  by (simp add: select_period_def window_def)

text \<open>
  C7. Selecting with \<open>time_start = T, time_end = T + D\<close> and with
  \<open>time_start = T, duration = D\<close> should give the same rows. With \<open>D\<close> the zero
  duration, \<open>T + D\<close> is \<open>T\<close>; the first call returns the sample at \<open>T\<close>, the second
  raises the "two of three" error, the zero duration counting as not given.
\<close>

theorem zero_duration_breaks_round_trip:
  "t_add (TS (Timestamp 100 ''UTC'')) (TD 0) = Inr (TS (Timestamp 100 ''UTC''))
   \<and> select_period sample_store 0
        (Some (TS (Timestamp 100 ''UTC''))) (Some (TS (Timestamp 100 ''UTC''))) None
        ''time_absolute'' =
      (sample_store @
         [ODataFrame sample_df,
          ODataFrame (sample_df\<lparr>rows :=
            [[VTimedelta (Some 0), VTimestamp (Some (Timestamp 100 ''UTC''))]]\<rparr>)],
       [SelectingPeriod (TS (Timestamp 100 ''UTC'')) (TS (Timestamp 100 ''UTC'')),
        Samples ''(single)'' 1],
       Inr 2)
   \<and> snd (snd (select_period sample_store 0
        (Some (TS (Timestamp 100 ''UTC''))) None (Some (TD 0)) ''time_absolute'')) =
      Inl ValueError"
  by (simp add: select_period_def window_def select_one_def lookup_def sample_store_def
      sample_df_def scalar_gt_def scalar_lt_def kind_matches_def in_window_def in64_def)

text \<open>
  C8. \<open>select_period\<close> changes none of the objects it is given: after the call, whether
  it returns or raises, the store begins with the store before the call, object by
  object. What it returns is a new object. Of a bundle whose entries are objects of the
  store, the returned bundle has the same keys in the same order; an entry that is no
  table (the metadata) is the same object, unchanged, and a table is a new table.
\<close>

theorem select_period_changes_no_input:
  assumes "select_period h data time_start time_end duration c = (h', msgs, r)"
    and "\<forall>kvs. lookup h data = Some (ODict kvs) \<longrightarrow> (\<forall>v \<in> snd ` set kvs. v < length h)"
  shows "take (length h) h' = h \<and>
     (\<forall>a. r = Inr a \<longrightarrow>
        length h \<le> a \<and> a < length h' \<and>
        (\<forall>kvs. lookup h data = Some (ODict kvs) \<longrightarrow>
           (\<exists>kvs'. lookup h' a = Some (ODict kvs') \<and> list_all2 (entry_kept h h') kvs kvs')))"
proof (cases "window time_start time_end duration :: 'a diag list \<times> (exn + tval \<times> tval)")
  case (Pair l0 w)
  show ?thesis
  proof (cases w)
    case (Inl e)
    then show ?thesis using assms(1) Pair by (auto simp: select_period_def)
  next
    case (Inr tt)
    obtain t1 t2 where tt: "tt = (t1, t2)" by (cases tt)
    show ?thesis
    proof (cases "lookup h data")
      case None
      then show ?thesis using assms(1) Pair Inr tt by (auto simp: select_period_def)
    next
      case (Some ob)
      show ?thesis
      proof (cases ob)
        case (ODataFrame df)
        obtain h1 l1 r1 where one: "select_one c t1 t2 ''(single)'' data h = (h1, l1, r1)"
          by (cases "select_one c t1 t2 ''(single)'' data h") auto
        have res: "h' = h1" "r = r1"
          using assms(1) Pair Inr tt Some ODataFrame one by (simp_all add: select_period_def)
        from select_one_table [OF _ one, of df] Some ODataFrame
        show ?thesis using res by auto
      next
        case (ODict kvs)
        obtain h1 l1 r1 where items: "select_items c t1 t2 kvs h = (h1, l1, r1)"
          by (cases "select_items c t1 t2 kvs h") auto
        have valid: "\<forall>v \<in> snd ` set kvs. v < length h"
          using assms(2) Some ODict by simp
        from select_items_frame [OF items valid] obtain ext where h1: "h1 = h @ ext"
          and kept: "\<forall>kvs'. r1 = Inr kvs' \<longrightarrow> list_all2 (entry_kept h h1) kvs kvs'"
          by auto
        show ?thesis
        proof (cases r1)
          case (Inl e)
          then show ?thesis
            using assms(1) Pair Inr tt Some ODict items h1 by (auto simp: select_period_def)
        next
          case r1: (Inr kvs')
          have res: "h' = h1 @ [ODict kvs']" "r = Inr (length h1)"
            using assms(1) Pair Inr tt Some ODict items r1 by (simp_all add: select_period_def)
          have "list_all2 (entry_kept h h1) kvs kvs'" using kept r1 by simp
          then have "list_all2 (entry_kept h h') kvs kvs'"
          proof (rule list.rel_mono_strong)
            fix x y assume x: "x \<in> set kvs" and p: "entry_kept h h1 x y"
            have vx: "snd x < length h" using valid x by auto
            have "snd y < length h1" using entry_kept_valid [OF p vx] h1 by simp
            then show "entry_kept h h' x y"
              using entry_kept_extend [OF p vx] res by simp
          qed
          then show ?thesis using res h1 Some ODict by (simp add: lookup_def)
        qed
      next
        case (OMapping m)
        then show ?thesis using assms(1) Pair Inr tt Some by (auto simp: select_period_def lookup_def)
      qed
    qed
  qed
qed

theorem select_period_changes_no_input_witness:
  "select_period bundle_store 2
     (Some (TS (Timestamp 100 ''UTC''))) (Some (TS (Timestamp 100 ''UTC''))) None
     ''time_absolute'' =
   (bundle_store @
      [ODataFrame sample_df,
       ODataFrame (sample_df\<lparr>rows :=
         [[VTimedelta (Some 0), VTimestamp (Some (Timestamp 100 ''UTC''))]]\<rparr>),
       ODict [(''metadata'', 0), (''data_hr'', 4)]],
    [SelectingPeriod (TS (Timestamp 100 ''UTC'')) (TS (Timestamp 100 ''UTC'')),
     Samples ''data_hr'' 1],
    Inr 5)
   \<and> take (length bundle_store)
        (bundle_store @
          [ODataFrame sample_df,
           ODataFrame (sample_df\<lparr>rows :=
             [[VTimedelta (Some 0), VTimestamp (Some (Timestamp 100 ''UTC''))]]\<rparr>),
           ODict [(''metadata'', 0), (''data_hr'', 4)]]) = bundle_store
   \<and> list_all2
        (entry_kept bundle_store
          (bundle_store @
            [ODataFrame sample_df,
             ODataFrame (sample_df\<lparr>rows :=
               [[VTimedelta (Some 0), VTimestamp (Some (Timestamp 100 ''UTC''))]]\<rparr>),
             ODict [(''metadata'', 0), (''data_hr'', 4)]]))
        [(''metadata'', 0), (''data_hr'', 1)] [(''metadata'', 0), (''data_hr'', 4)]"
proof -
  have valid: "\<forall>kvs. lookup bundle_store 2 = Some (ODict kvs) \<longrightarrow>
      (\<forall>v \<in> snd ` set kvs. v < length bundle_store)"
    by (simp add: lookup_def bundle_store_def)
  have src: "lookup bundle_store 2 = Some (ODict [(''metadata'', 0), (''data_hr'', 1)])"
    by (simp add: lookup_def bundle_store_def)
  show ?thesis
    using select_period_changes_no_input [OF select_bundle valid] src select_bundle
    by (auto simp: lookup_def bundle_store_def)
qed

text \<open>
  C9. In the conversion of rows to a table, the rows of the table are the rows without an
  empty field, in their order, each cast to the schema (so a row with an empty field is
  in no table and every other row is in it), and the count that is printed is the
  number of rows with an empty field; nothing is printed when there is none.
\<close>

theorem rows_with_empty_field_are_dropped:
  "dataframe_from_list rs cols = (msgs, Inr df) \<Longrightarrow>
     list_all2 (\<lambda>r r'. typed_row cols r = Inr r') (filter (\<lambda>r. \<not> has_missing r) rs) (rows df)
   \<and> length (rows df) + length (filter has_missing rs) = length rs
   \<and> msgs = (if 0 < length (filter has_missing rs)
              then [DroppedRows (length (filter has_missing rs))] else [])"
  using dataframe_from_list_Inr(2,3) [of rs cols msgs df]
    sum_length_filter_compl [of has_missing rs]
  by (auto dest: list_all2_lengthD)

theorem rows_with_empty_field_are_dropped_witness:
  "dataframe_from_list
     [[CStr ''5000'', CStr ''72'', CStr ''95'', CStr ''1000'', CStr ''2000''],
      [CStr ''6000'', CStr [], CStr ''95'', CStr ''1000'', CStr ''2000'']] cols_hr =
   ([DroppedRows 1],
    Inr (\<lparr>columns = [(''time_elapsed'', Timedelta64), (''heart_rate_bpm'', Int16),
                     (''confidence'', UInt8), (''ppg_raw'', Int32), (''ppg_filter'', Int32)],
          rows = [[VTimedelta (Some 5000000000), VInt 72, VInt 95, VInt 1000, VInt 2000]]\<rparr>
         :: unit dataframe))
   \<and> list_all2 (\<lambda>r r'. typed_row cols_hr r = Inr r')
        (filter (\<lambda>r. \<not> has_missing r)
          [[CStr ''5000'', CStr ''72'', CStr ''95'', CStr ''1000'', CStr ''2000''],
           [CStr ''6000'', CStr [], CStr ''95'', CStr ''1000'', CStr ''2000'']])
        [[VTimedelta (Some 5000000000), VInt 72, VInt 95, VInt 1000, VInt 2000 :: unit val]]
   \<and> length (filter has_missing
        [[CStr ''5000'', CStr ''72'', CStr ''95'', CStr ''1000'', CStr ''2000''],
         [CStr ''6000'', CStr [], CStr ''95'', CStr ''1000'', CStr ''2000'']]) = 1"
  using rows_with_empty_field_are_dropped [OF table_one_missing [where ?'a = unit]]
  by (simp add: has_missing_def table_one_missing)

text \<open>
  C6. After \<open>parse_file\<close>, in every row of the heart-rate table and of the acceleration
  table, \<open>time_elapsed\<close> is a duration \<open>e\<close> and \<open>time_absolute\<close> is the start of
  the record plus \<open>e\<close>, the exact sum (a sum outside 64 bits raises instead of wrapping);
  when the start of the record is not-a-time, \<open>time_absolute\<close> is not-a-time. The start
  of the record is \<open>_get_start_timestamp\<close> of the returned metadata.
\<close>

theorem time_absolute_is_elapsed_plus_start:
  assumes "parse_file L tz version f = (msgs, Inr fd)"
    and "data_hr fd = Some df \<or> data_accel fd = Some df"
    and "r \<in> set (rows df)"
  shows "\<exists>e. cell df ''time_elapsed'' r = Some (VTimedelta (Some e)) \<and>
           cell df ''time_absolute'' r =
             Some (case fst (get_start_timestamp L tz (metadata fd)) of
                     None \<Rightarrow> VTimedelta None
                   | Some s \<Rightarrow> VTimestamp (Some (Timestamp (e + nanos s) tz)))"
proof -
  from assms(1) have "snd (parse_file L tz version f) = Inr fd" by simp
  then obtain hr0 ac0 meta sv hr ac dh da m1 m2 m3 m4 m5 where
    hr0: "dataframe_from_list (rows_hr (read_file L version f)) cols_hr = (m1, Inr hr0)"
    and ac0: "dataframe_from_list (rows_accel (read_file L version f)) cols_accel = (m2, Inr ac0)"
    and hr: "process_absolute_timestamps L tz meta hr0 = (m4, Inr hr)"
    and ac: "process_absolute_timestamps L tz meta ac0 = (m5, Inr ac)"
    and fd: "fd = \<lparr>metadata =
             update_metadata meta
               [(''n_samples_hr'', PInt (int (length (rows hr)))),
                (''n_samples_accel'', PInt (int (length (rows ac)))),
                (''n_survey_responses'', PInt (int (length (rows sv)))),
                (''duration_hr'', PTimedelta dh),
                (''duration_accel'', PTimedelta da)],
           data_hr = non_empty hr,
           data_accel = non_empty ac,
           data_survey = non_empty sv\<rparr>"
    by (rule parse_file_Inr)
  have start: "get_start_timestamp L tz (metadata fd) = get_start_timestamp L tz meta"
    using fd by (simp add: start_after_update)
  from assms(2) fd have "df = hr \<or> df = ac"
    by (auto dest: non_empty_Some)
  then show ?thesis
  proof
    assume "df = hr"
    then show ?thesis
      using backfilled_row [OF hr0 time_elapsed_hr time_absolute_hr hr] assms(3) start by simp
  next
    assume "df = ac"
    then show ?thesis
      using backfilled_row [OF ac0 time_elapsed_accel time_absolute_accel ac] assms(3) start
      by simp
  qed
qed

theorem time_absolute_is_elapsed_plus_start_witness:
  "map_sum id data_hr
     (snd (parse_file scenario_lib ''UTC'' (2 / 10)
        (Inr ([start_line, ''5000,72,95,1000,2000''], None)))) = Inr (Some scenario_hr)
   \<and> [VTimedelta (Some 5000000000), VInt 72, VInt 95, VInt 1000, VInt 2000,
        VTimestamp (Some (Timestamp 1705000000000 ''UTC''))] \<in> set (rows scenario_hr)
   \<and> cell scenario_hr ''time_elapsed''
        [VTimedelta (Some 5000000000), VInt 72, VInt 95, VInt 1000, VInt 2000,
         VTimestamp (Some (Timestamp 1705000000000 ''UTC''))] =
      Some (VTimedelta (Some 5000000000))
   \<and> cell scenario_hr ''time_absolute''
        [VTimedelta (Some 5000000000), VInt 72, VInt 95, VInt 1000, VInt 2000,
         VTimestamp (Some (Timestamp 1705000000000 ''UTC''))] =
      Some (VTimestamp (Some (Timestamp (5000000000 + 1700000000000) ''UTC'')))"
proof -
  obtain msgs fd where p: "parse_file scenario_lib ''UTC'' (2 / 10)
       (Inr ([start_line, ''5000,72,95,1000,2000''], None)) = (msgs, Inr fd)"
    and t: "data_hr fd = Some scenario_hr"
    and st: "metadata fd ''start_UNIXTimeStamp'' = Some (PInt 1700000000000)"
    by (rule scenario_returns)
  have row: "[VTimedelta (Some 5000000000), VInt 72, VInt 95, VInt 1000, VInt 2000,
        VTimestamp (Some (Timestamp 1705000000000 ''UTC''))] \<in> set (rows scenario_hr)"
    by (simp add: scenario_hr_def)
  have start: "fst (get_start_timestamp scenario_lib ''UTC'' (metadata fd)) =
      Some (Timestamp 1700000000000 ''UTC'')"
    using st by (simp add: get_start_timestamp_def to_datetime_def in64_def)
  show ?thesis
    using time_absolute_is_elapsed_plus_start [OF p disjI1 [OF t] row] start row p t
    by (auto simp: cell_def scenario_hr_def)
qed









end
